theory Spec2Isabelle
  imports Complex_Main "HOL-Library.Word" "HOL-Library.Multiset"
begin

section \<open>Scope\<close>

text \<open>
  This theory embeds the Lua scripting bridge of Aegisub, \<^verbatim>\<open>src/aegisub/src/auto4_lua.cpp\<close>:
  the script object (\<^verbatim>\<open>LuaScript\<close>: \<^verbatim>\<open>Create\<close>, \<^verbatim>\<open>Destroy\<close>, \<^verbatim>\<open>Reload\<close>,
  \<^verbatim>\<open>RegisterFeature\<close>), the feature base class (\<^verbatim>\<open>LuaFeature\<close>), macros
  (\<^verbatim>\<open>LuaFeatureMacro\<close>) and export filters (\<^verbatim>\<open>LuaFeatureFilter\<close>). Every function
  of the file that is embedded keeps its name; a member function \<^verbatim>\<open>C::f\<close> whose name alone
  would be ambiguous is called \<open>C_f\<close>, and the body of a loop is a recursive function
  \<open>f_loop\<close>.

  The C++ code drives a Lua 5.1 interpreter through its stack API. The interpreter is a
  library, not part of the file; it is modelled here as far as the bridge uses it, after the
  Lua 5.1 reference manual: a value stack addressed by positive and negative indices, tables
  held by reference in a store, the registry, the globals, and protected calls. Script code
  is not interpreted. A script function is an opaque behaviour (\<open>closures\<close>), and the top
  level of a script is the sequence of its effects that the bridge can observe
  (\<open>chunk_step\<close>).

  Not modelled: the standard libraries that \<^verbatim>\<open>Create\<close> opens, the replacement of
  \<^verbatim>\<open>dofile\<close> and \<^verbatim>\<open>loadfile\<close> by \<^verbatim>\<open>include\<close>, the module search path and loader, the
  \<^verbatim>\<open>aegisub\<close> table of C functions (a script reaches \<^verbatim>\<open>register_macro\<close> and
  \<^verbatim>\<open>register_filter\<close> through the steps \<open>Call\<close> and \<open>PCall\<close>), metatables, the
  video and text-extent helpers, the progress window with its background thread and its
  cancellation, and character-set conversion (a \<^verbatim>\<open>wxString\<close> is the byte string it was
  made from).
\<close>

section \<open>The Lua 5.1 runtime as the bridge sees it\<close>

subsection \<open>Values and state\<close>

text \<open>
  A C \<^verbatim>\<open>int\<close> that the code computes with is a 32-bit word, read as a signed number by
  \<open>sint\<close>; addition and subtraction wrap around. A Lua number is a \<^verbatim>\<open>double\<close>; the model
  takes the rational numbers for it, which covers every finite double (infinities and NaN
  are left out). A document (\<^verbatim>\<open>AssFile*\<close>) is an opaque identity.

  \<open>LuaAssFile\<close> is the object behind the userdata that a script receives as its
  \<^verbatim>\<open>subtitles\<close> argument. Its class is defined outside the file; what the file fixes are
  the three constructor arguments recorded here.
\<close>

type_synonym c_int = "32 word"
type_synonym lua_Number = rat
type_synonym AssFile = nat

record LuaAssFile =
  ass :: AssFile
  can_modify :: bool
  can_set_undo :: bool

text \<open>
  Tables and functions are reference values: \<open>LTable a\<close> is the table at address \<open>a\<close>
  of the store, \<open>LFunction r\<close> the function with identity \<open>r\<close> (a function of the
  script, or any other function value that a script can hand over). The light userdata is
  the pointer to the script object that \<^verbatim>\<open>Create\<close> puts in the registry.
\<close>

datatype lua_value =
    LNil
  | LBoolean bool
  | LNumber lua_Number
  | LString string
  | LTable nat
  | LFunction nat
  | LUserdata LuaAssFile
  | LLightUserdata

text \<open>
  A table is the list of its key-value pairs in the order in which \<^verbatim>\<open>lua_next\<close> visits
  them; keys are distinct and no value is nil. Lua leaves the order of traversal open. The
  model visits entries in the order of their first assignment, and the statements below
  that depend on entries are either about the selection after it was sorted, or hold for
  every arrangement of the entries.
\<close>

type_synonym lua_table = "(lua_value \<times> lua_value) list"

text \<open>
  The state of one interpreter: the stack of the running C function, bottom first; the
  table store; the registry and the globals, both as maps from field names to values with
  nil for an absent field. Two fields are not part of Lua and observe a run: \<open>calls\<close> lists
  every call of a script function made through \<open>lua_pcall\<close>, with its arguments, and
  \<open>api_violation\<close> is set when the C API is used outside its contract (an index that is
  not on the stack, a table operation on a value that is no table), where the behaviour of
  the C library is undefined.
\<close>

record lua_State =
  stack :: "lua_value list"
  heap :: "lua_table list"
  registry :: "string \<Rightarrow> lua_value"
  globals :: "string \<Rightarrow> lua_value"
  calls :: "(nat \<times> lua_value list) list"
  api_violation :: bool

text \<open>
  Two conversions of the Lua library are left as parameters, since they depend on the C
  library: the reading of a string as a number (\<^verbatim>\<open>luaO_str2d\<close>, on top of \<^verbatim>\<open>strtod\<close>) and
  the printing of a number (\<^verbatim>\<open>lua_number2str\<close>, on top of \<^verbatim>\<open>sprintf\<close>).
\<close>

record luaconf =
  lua_str2number :: "string \<Rightarrow> lua_Number option"
  lua_number2str :: "lua_Number \<Rightarrow> string"

text \<open>
  \<^verbatim>\<open>lua_number2integer\<close> converts a number to \<^verbatim>\<open>lua_Integer\<close>. On an integral number
  every build of Lua 5.1 returns that integer. Otherwise the portable definition of
  \<^verbatim>\<open>luaconf.h\<close> is the C cast, which truncates towards zero, as here; the x86 variants
  round to the nearest integer instead. The result is the mathematical integer: it is the
  value of the C conversion only for a number inside the range of \<^verbatim>\<open>lua_Integer\<close>
  (\<^verbatim>\<open>ptrdiff_t\<close>, at least 32 bits), outside of which the C conversion is undefined, and
  a \<^verbatim>\<open>lua_Number\<close> is a rational here, so there is neither infinity nor NaN. The
  property of \<open>Process\<close> about the numbers that a script returns is stated for numbers
  inside that range.
\<close>

definition lua_number2integer :: "lua_Number \<Rightarrow> int" where
  "lua_number2integer q = (if 0 \<le> q then \<lfloor>q\<rfloor> else \<lceil>q\<rceil>)"

text \<open>
  Raw table access. Assigning nil removes the key; assigning to a new key adds the entry
  at the end of the traversal order.
\<close>

fun rawset :: "lua_table \<Rightarrow> lua_value \<Rightarrow> lua_value \<Rightarrow> lua_table" where
  "rawset [] k v = (if v = LNil then [] else [(k, v)])"
| "rawset ((k', v') # t) k v =
     (if k' = k then (if v = LNil then t else (k, v) # t) else (k', v') # rawset t k v)"

definition rawget :: "lua_table \<Rightarrow> lua_value \<Rightarrow> lua_value" where
  "rawget t k = (case map_of t k of Some v \<Rightarrow> v | None \<Rightarrow> LNil)"

subsection \<open>Stack operations\<close>

text \<open>
  \<open>index2adr\<close> resolves a stack index: \<open>1\<close> is the bottom of the frame, \<open>-1\<close> the top.
  A positive index above the top is acceptable and holds no value (\<^verbatim>\<open>LUA_TNONE\<close>). The
  pseudo-indices of the registry and of the globals are not resolved here: the operations
  on them are \<open>lua_getfield_REGISTRY\<close>, \<open>lua_setfield_REGISTRY\<close> and \<open>lua_getglobal\<close>.
\<close>

definition index2adr :: "lua_State \<Rightarrow> int \<Rightarrow> lua_value option" where
  "index2adr L idx =
     (let n = length (stack L) in
      if 0 < idx \<and> nat idx \<le> n then Some (stack L ! (nat idx - 1))
      else if idx < 0 \<and> nat (- idx) \<le> n then Some (stack L ! (n - nat (- idx)))
      else None)"

definition push :: "lua_value \<Rightarrow> lua_State \<Rightarrow> lua_State" where
  "push v L = L\<lparr>stack := stack L @ [v]\<rparr>"

definition lua_pushinteger :: "lua_State \<Rightarrow> int \<Rightarrow> lua_State" where
  "lua_pushinteger L n = push (LNumber (of_int n)) L"

definition lua_pop :: "lua_State \<Rightarrow> nat \<Rightarrow> lua_State" where
  "lua_pop L n =
     (if n \<le> length (stack L) then L\<lparr>stack := take (length (stack L) - n) (stack L)\<rparr>
      else L\<lparr>stack := [], api_violation := True\<rparr>)"

definition lua_newtable :: "lua_State \<Rightarrow> lua_State" where
  "lua_newtable L = push (LTable (length (heap L))) (L\<lparr>heap := heap L @ [[]]\<rparr>)"

definition lua_rawseti :: "lua_State \<Rightarrow> int \<Rightarrow> int \<Rightarrow> lua_State" where
  "lua_rawseti L idx n =
     (case (index2adr L idx, index2adr L (-1)) of
        (Some (LTable a), Some v) \<Rightarrow>
          if a < length (heap L)
          then lua_pop (L\<lparr>heap := (heap L)[a := rawset (heap L ! a) (LNumber (of_int n)) v]\<rparr>) 1
          else lua_pop (L\<lparr>api_violation := True\<rparr>) 1
      | _ \<Rightarrow> lua_pop (L\<lparr>api_violation := True\<rparr>) 1)"

text \<open>
  \<^verbatim>\<open>lua_isnumber\<close> holds for a number and for a string that converts to a number;
  \<^verbatim>\<open>lua_tointeger\<close> converts such a value and returns 0 for any other.
\<close>

definition luaV_tonumber :: "luaconf \<Rightarrow> lua_value \<Rightarrow> lua_Number option" where
  "luaV_tonumber cf v =
     (case v of LNumber q \<Rightarrow> Some q | LString s \<Rightarrow> lua_str2number cf s | _ \<Rightarrow> None)"

definition lua_isnumber :: "luaconf \<Rightarrow> lua_State \<Rightarrow> int \<Rightarrow> bool" where
  "lua_isnumber cf L idx =
     (case index2adr L idx of Some v \<Rightarrow> luaV_tonumber cf v \<noteq> None | None \<Rightarrow> False)"

definition lua_tointeger :: "luaconf \<Rightarrow> lua_State \<Rightarrow> int \<Rightarrow> int" where
  "lua_tointeger cf L idx =
     (case index2adr L idx of
        Some v \<Rightarrow> (case luaV_tonumber cf v of Some q \<Rightarrow> lua_number2integer q | None \<Rightarrow> 0)
      | None \<Rightarrow> 0)"

definition ttisfunction :: "lua_value \<Rightarrow> bool" where
  "ttisfunction v = (case v of LFunction _ \<Rightarrow> True | _ \<Rightarrow> False)"

definition lua_isfunction :: "lua_State \<Rightarrow> int \<Rightarrow> bool" where
  "lua_isfunction L idx = (case index2adr L idx of Some v \<Rightarrow> ttisfunction v | None \<Rightarrow> False)"

definition lua_istable :: "lua_State \<Rightarrow> int \<Rightarrow> bool" where
  "lua_istable L idx = (case index2adr L idx of Some (LTable _) \<Rightarrow> True | _ \<Rightarrow> False)"

definition lua_isuserdata :: "lua_State \<Rightarrow> int \<Rightarrow> bool" where
  "lua_isuserdata L idx =
     (case index2adr L idx of Some (LUserdata _) \<Rightarrow> True | Some LLightUserdata \<Rightarrow> True
      | _ \<Rightarrow> False)"

definition lua_isstring :: "lua_State \<Rightarrow> int \<Rightarrow> bool" where
  "lua_isstring L idx =
     (case index2adr L idx of Some (LString _) \<Rightarrow> True | Some (LNumber _) \<Rightarrow> True
      | _ \<Rightarrow> False)"

definition lua_toboolean :: "lua_State \<Rightarrow> int \<Rightarrow> bool" where
  "lua_toboolean L idx =
     (case index2adr L idx of Some LNil \<Rightarrow> False | Some (LBoolean b) \<Rightarrow> b | Some _ \<Rightarrow> True
      | None \<Rightarrow> False)"

text \<open>
  \<^verbatim>\<open>lua_tostring\<close> returns the characters of a string, the printed form of a number, and
  a null pointer for any other value. (It also replaces a number on the stack by its
  string; the bridge applies it to a value it reads again only in \<^verbatim>\<open>LuaRegister\<close>, on the
  name and the description, so that the replacement is not modelled.) A \<^verbatim>\<open>wxString\<close> made
  from a null pointer is empty.
\<close>

definition luaV_tostring :: "luaconf \<Rightarrow> lua_value \<Rightarrow> string option" where
  "luaV_tostring cf v =
     (case v of LString s \<Rightarrow> Some s | LNumber q \<Rightarrow> Some (lua_number2str cf q)
      | _ \<Rightarrow> None)"

definition lua_tostring :: "luaconf \<Rightarrow> lua_State \<Rightarrow> int \<Rightarrow> string option" where
  "lua_tostring cf L idx =
     (case index2adr L idx of Some v \<Rightarrow> luaV_tostring cf v | None \<Rightarrow> None)"

definition wxString :: "string option \<Rightarrow> string" where
  "wxString psz = (case psz of Some s \<Rightarrow> s | None \<Rightarrow> [])"

definition lua_pushstring :: "lua_State \<Rightarrow> string \<Rightarrow> lua_State" where
  "lua_pushstring L s = push (LString s) L"

definition lua_pushlightuserdata :: "lua_State \<Rightarrow> lua_State" where
  "lua_pushlightuserdata L = push LLightUserdata L"

definition lua_pushvalue :: "lua_State \<Rightarrow> int \<Rightarrow> lua_State" where
  "lua_pushvalue L idx = push (case index2adr L idx of Some v \<Rightarrow> v | None \<Rightarrow> LNil) L"

definition lua_remove :: "lua_State \<Rightarrow> int \<Rightarrow> lua_State" where
  "lua_remove L idx =
     (let n = length (stack L) in
      if 0 < idx \<and> nat idx \<le> n
      then L\<lparr>stack := take (nat idx - 1) (stack L) @ drop (nat idx) (stack L)\<rparr>
      else if idx < 0 \<and> nat (- idx) \<le> n
      then L\<lparr>stack := take (n - nat (- idx)) (stack L) @ drop (Suc (n - nat (- idx))) (stack L)\<rparr>
      else L\<lparr>api_violation := True\<rparr>)"

definition lua_rawgeti :: "lua_State \<Rightarrow> int \<Rightarrow> int \<Rightarrow> lua_State" where
  "lua_rawgeti L idx n =
     (case index2adr L idx of
        Some (LTable a) \<Rightarrow>
          if a < length (heap L) then push (rawget (heap L ! a) (LNumber (of_int n))) L
          else push LNil (L\<lparr>api_violation := True\<rparr>)
      | _ \<Rightarrow> push LNil (L\<lparr>api_violation := True\<rparr>))"

definition lua_getfield_REGISTRY :: "lua_State \<Rightarrow> string \<Rightarrow> lua_State" where
  "lua_getfield_REGISTRY L k = push (registry L k) L"

definition lua_setfield_REGISTRY :: "lua_State \<Rightarrow> string \<Rightarrow> lua_State" where
  "lua_setfield_REGISTRY L k =
     (case index2adr L (-1) of
        Some v \<Rightarrow> lua_pop (L\<lparr>registry := (registry L)(k := v)\<rparr>) 1
      | None \<Rightarrow> L\<lparr>api_violation := True\<rparr>)"

definition lua_getglobal :: "lua_State \<Rightarrow> string \<Rightarrow> lua_State" where
  "lua_getglobal L k = push (globals L k) L"

text \<open>
  A fresh interpreter. The globals that the standard libraries define are not part of it;
  none of them is a global that the bridge reads (\<^verbatim>\<open>version\<close>, \<^verbatim>\<open>script_name\<close>,
  \<^verbatim>\<open>script_description\<close>, \<^verbatim>\<open>script_author\<close>, \<^verbatim>\<open>script_version\<close>).
\<close>

definition lua_open :: lua_State where
  "lua_open = \<lparr>stack = [], heap = [], registry = (\<lambda>k. LNil), globals = (\<lambda>k. LNil),
                calls = [], api_violation = False\<rparr>"

text \<open>
  The entries of the table at a stack index, for the traversal with \<^verbatim>\<open>lua_next\<close>.
\<close>

definition deref :: "lua_table list \<Rightarrow> nat \<Rightarrow> lua_table" where
  "deref h a = (if a < length h then h ! a else [])"

definition table_at :: "lua_State \<Rightarrow> int \<Rightarrow> lua_table" where
  "table_at L idx = (case index2adr L idx of Some (LTable a) \<Rightarrow> deref (heap L) a | _ \<Rightarrow> [])"

subsection \<open>Calls into the script\<close>

text \<open>
  A script function is given by its behaviour: from the arguments and the table store at
  the time of the call to either an error value, or the returned values with the table
  store it leaves. The environment \<open>funs\<close> maps the identity of each script function to
  its behaviour; the statements below hold for every such environment.

  \<open>lua_pcall\<close> takes the function and its \<open>nargs\<close> arguments off the stack. After a
  successful call it pushes exactly \<open>nresults\<close> results, dropping extra values and
  filling up with nil. After an error it pushes the error value and returns a status
  other than 0. Calling a value that is no function is such an error.
\<close>

datatype call_outcome = Raises lua_value | Returns "lua_value list" "lua_table list"

type_synonym closures = "nat \<Rightarrow> lua_value list \<Rightarrow> lua_table list \<Rightarrow> call_outcome"

definition adjust_results :: "nat \<Rightarrow> lua_value list \<Rightarrow> lua_value list" where
  "adjust_results nresults vs = take nresults (vs @ replicate nresults LNil)"

definition lua_typename :: "lua_value \<Rightarrow> string" where
  "lua_typename v =
     (case v of LNil \<Rightarrow> ''nil'' | LBoolean _ \<Rightarrow> ''boolean'' | LNumber _ \<Rightarrow> ''number''
      | LString _ \<Rightarrow> ''string'' | LTable _ \<Rightarrow> ''table'' | LFunction _ \<Rightarrow> ''function''
      | LUserdata _ \<Rightarrow> ''userdata'' | LLightUserdata \<Rightarrow> ''userdata'')"

definition LUA_ERRRUN :: int where
  "LUA_ERRRUN = 2"

definition lua_pcall :: "closures \<Rightarrow> lua_State \<Rightarrow> nat \<Rightarrow> nat \<Rightarrow> lua_State \<times> int" where
  "lua_pcall funs L nargs nresults =
     (let n = length (stack L) in
      if n < nargs + 1 then (L\<lparr>stack := [], api_violation := True\<rparr>, LUA_ERRRUN)
      else
        let args = drop (n - nargs) (stack L);
            f = stack L ! (n - nargs - 1);
            below = take (n - nargs - 1) (stack L)
        in case f of
             LFunction r \<Rightarrow>
               (case funs r args (heap L) of
                  Raises e \<Rightarrow>
                    (L\<lparr>stack := below @ [e], calls := calls L @ [(r, args)]\<rparr>, LUA_ERRRUN)
                | Returns vs h \<Rightarrow>
                    (L\<lparr>stack := below @ adjust_results nresults vs, heap := h,
                       calls := calls L @ [(r, args)]\<rparr>, 0))
           | _ \<Rightarrow>
               (L\<lparr>stack := below @
                    [LString (''attempt to call a '' @ lua_typename f @ '' value'')]\<rparr>,
                LUA_ERRRUN))"

section \<open>Host side: documents, log channels, features, the script object\<close>

text \<open>
  What the bridge does to the host, apart from its results, is recorded as a list of
  events: warnings and errors sent to the wxWidgets log, lines sent to the progress sink,
  and the final \<^verbatim>\<open>ProcessingComplete\<close> on a document snapshot (with the undo description
  when one is passed).
\<close>

datatype host_event =
    wxLogWarning string
  | wxLogError string
  | ProgressLog string
  | ProcessingComplete LuaAssFile "string option"

text \<open>
  Modelled from the spec: the constructor of \<^verbatim>\<open>LuaAssFile\<close>, which is defined outside the
  file. The specification calls it \<^verbatim>\<open>PushDocumentSnapshot(doc, allow_modify, allow_undo)\<close>:
  it wraps the document for script access and leaves the wrapper on the stack.
\<close>

definition LuaAssFile_new :: "lua_State \<Rightarrow> AssFile \<Rightarrow> bool \<Rightarrow> bool \<Rightarrow> lua_State" where
  "LuaAssFile_new L subs allow_modify allow_undo =
     push (LUserdata \<lparr>ass = subs, can_modify = allow_modify, can_set_undo = allow_undo\<rparr>) L"

text \<open>
  Modelled from the spec: the configuration dialog, defined outside the file, exposes
  ``a read-back operation producing exactly one result value''. The dialog is
  represented by the entries of the table it reads back.
\<close>

type_synonym LuaConfigDialog = lua_table

definition LuaReadBack :: "LuaConfigDialog \<Rightarrow> lua_State \<Rightarrow> lua_State \<times> int" where
  "LuaReadBack dlg L = (push (LTable (length (heap L))) (L\<lparr>heap := heap L @ [dlg]\<rparr>), 1)"

text \<open>
  The members of the two feature classes that the file reads or writes. \<^verbatim>\<open>myid\<close> is the
  member of the base class \<^verbatim>\<open>LuaFeature\<close>.
\<close>

record LuaFeatureMacro =
  macro_name :: string
  macro_description :: string
  no_validate :: bool
  macro_myid :: int

record LuaFeatureFilter =
  filter_name :: string
  filter_description :: string
  filter_merit :: c_int
  has_config :: bool
  config_dialog :: "LuaConfigDialog option"
  filter_myid :: int

datatype Feature = FeatureMacro LuaFeatureMacro | FeatureFilter LuaFeatureFilter

fun myid :: "Feature \<Rightarrow> int" where
  "myid (FeatureMacro m) = macro_myid m"
| "myid (FeatureFilter f) = filter_myid f"

fun set_myid :: "Feature \<Rightarrow> int \<Rightarrow> Feature" where
  "set_myid (FeatureMacro m) i = FeatureMacro (m\<lparr>macro_myid := i\<rparr>)"
| "set_myid (FeatureFilter f) i = FeatureFilter (f\<lparr>filter_myid := i\<rparr>)"

text \<open>
  The script object. \<open>pretty_filename\<close> stands for the result of \<^verbatim>\<open>GetPrettyFilename()\<close>,
  a member of the base class \<^verbatim>\<open>Script\<close> defined outside the file; \<open>script_L\<close> is the
  member \<^verbatim>\<open>L\<close>, with \<open>None\<close> for the null pointer.
\<close>

record LuaScript =
  filename :: string
  pretty_filename :: string
  name :: string
  description :: string
  author :: string
  version :: string
  features :: "Feature list"
  script_L :: "lua_State option"


definition GetPrettyFilename :: "LuaScript \<Rightarrow> string" where
  "GetPrettyFilename this = pretty_filename this"

definition nl :: string where
  "nl = [CHR 0x0A]"

definition dq :: string where
  "dq = [CHR 0x22]"

section \<open>LuaFeature\<close>

text \<open>
  \<^verbatim>\<open>LuaScript::RegisterFeature\<close> (lines 330 to 333) appends the feature and returns
  \<^verbatim>\<open>features.size() - 1\<close> as an \<^verbatim>\<open>int\<close>: \<open>size_to_int\<close> is the conversion of an
  unsigned size to \<^verbatim>\<open>int\<close>. It is exact below \<open>2^31\<close>; from there on the language
  leaves the result to the implementation, and the usual one, taken here, keeps the low
  32 bits.

  \<^verbatim>\<open>LuaFeature::RegisterFeature\<close> (lines 508 to 524) stores the returned index in the
  feature. The vector holds a pointer to the feature as its last element, so the stored
  record is updated too. It then files the table on top of the stack, which holds the functions of the feature,
  under that index in the registry table \<^verbatim>\<open>features\<close>.
\<close>

definition size_to_int :: "nat \<Rightarrow> int" where
  "size_to_int n = sint (word_of_nat n :: c_int)"

definition LuaScript_RegisterFeature :: "LuaScript \<Rightarrow> Feature \<Rightarrow> LuaScript \<times> int" where
  "LuaScript_RegisterFeature this feature =
     (let this1 = this\<lparr>features := features this @ [feature]\<rparr>
      in (this1, size_to_int (length (features this1) - 1)))"

definition LuaFeature_RegisterFeature ::
  "LuaScript \<times> lua_State \<Rightarrow> Feature \<Rightarrow> LuaScript \<times> lua_State" where
  "LuaFeature_RegisterFeature sL this =
     (case sL of (s, L) \<Rightarrow>
        let L1 = lua_getfield_REGISTRY L ''aegisub'';
            L2 = lua_pop L1 1;
            (s1, my_id) = LuaScript_RegisterFeature s this;
            s2 = s1\<lparr>features := (features s1)[length (features s1) - 1 := set_myid this my_id]\<rparr>;
            L3 = lua_getfield_REGISTRY L2 ''features'';
            L4 = lua_pushvalue L3 (-2);
            L5 = lua_rawseti L4 (-2) my_id;
            L6 = lua_pop L5 1
        in (s2, L6))"

text \<open>
  \<^verbatim>\<open>LuaFeature::GetFeatureFunction\<close> (lines 530 to 540) pushes function number
  \<open>functionid\<close> of the feature.
\<close>

definition GetFeatureFunction :: "lua_State \<Rightarrow> int \<Rightarrow> int \<Rightarrow> lua_State" where
  "GetFeatureFunction L my_id functionid =
     (let L1 = lua_getfield_REGISTRY L ''features'';
          L2 = lua_rawgeti L1 (-1) my_id;
          L3 = lua_rawgeti L2 (-1) functionid;
          L4 = lua_remove L3 (-2);
          L5 = lua_remove L4 (-2)
      in L5)"

text \<open>
  \<^verbatim>\<open>LuaFeature::CreateIntegerArray\<close> (lines 546 to 556): a new table with
  \<^verbatim>\<open>ints[i] + 1\<close> at key \<^verbatim>\<open>i + 1\<close>. The sum is computed in \<^verbatim>\<open>int\<close>.
\<close>

fun CreateIntegerArray_loop :: "lua_State \<Rightarrow> nat \<Rightarrow> c_int list \<Rightarrow> lua_State" where
  "CreateIntegerArray_loop L i [] = L"
| "CreateIntegerArray_loop L i (x # ints) =
     CreateIntegerArray_loop
       (lua_rawseti (lua_pushinteger L (sint (x + 1))) (-2) (int i + 1)) (Suc i) ints"

definition CreateIntegerArray :: "lua_State \<Rightarrow> c_int list \<Rightarrow> lua_State" where
  "CreateIntegerArray L ints = CreateIntegerArray_loop (lua_newtable L) 0 ints"

text \<open>
  \<^verbatim>\<open>LuaFeature::ThrowError\<close> (lines 561 to 566).
\<close>

definition ThrowError :: "luaconf \<Rightarrow> lua_State \<times> host_event list \<Rightarrow> lua_State \<times> host_event list" where
  "ThrowError cf Lev =
     (case Lev of (L, ev) \<Rightarrow>
        let err = wxString (lua_tostring cf L (-1)) in (lua_pop L 1, ev @ [wxLogError err]))"

section \<open>Threaded calls\<close>

text \<open>
  \<^verbatim>\<open>lua_threaded_call\<close> (lines 463 to 475) and \<^verbatim>\<open>LuaThreadedCall\<close> (lines 479 to 488).
  The call runs to its end before \<^verbatim>\<open>LuaThreadedCall\<close> returns; a cancellation by the user
  is not modelled. The garbage collection after the call does not change a value that can
  still be reached.
\<close>

definition lua_threaded_call ::
  "luaconf \<Rightarrow> closures \<Rightarrow> lua_State \<times> host_event list \<Rightarrow> nat \<Rightarrow> nat
     \<Rightarrow> lua_State \<times> host_event list" where
  "lua_threaded_call cf funs Lev nargs nresults =
     (case Lev of (L, ps) \<Rightarrow>
        let (L1, err) = lua_pcall funs L nargs nresults in
        if err \<noteq> 0
        then (lua_pop L1 1,
              ps @ [ProgressLog (nl @ nl @ ''Lua reported a runtime error:'' @ nl),
                    ProgressLog (wxString (lua_tostring cf L1 (-1)))])
        else (L1, ps))"

definition LuaThreadedCall ::
  "luaconf \<Rightarrow> closures \<Rightarrow> lua_State \<times> host_event list \<Rightarrow> nat \<Rightarrow> nat
     \<Rightarrow> lua_State \<times> host_event list" where
  "LuaThreadedCall cf funs Lev nargs nresults = lua_threaded_call cf funs Lev nargs nresults"

section \<open>LuaFeatureMacro\<close>

text \<open>
  The constructor (lines 593 to 615) and \<^verbatim>\<open>LuaRegister\<close> (lines 576 to 585) run as a C
  function called by the script: the stack holds the arguments of the call, the first at
  index 1. \<^verbatim>\<open>lua_error\<close> does not return; the result \<open>Some e\<close> in the first component
  is the error value it raises, \<open>None\<close> a normal return.
\<close>

definition LuaFeatureMacro_ctor ::
  "LuaScript \<times> lua_State \<Rightarrow> string \<Rightarrow> string \<Rightarrow> lua_value option \<times> LuaScript \<times> lua_State" where
  "LuaFeatureMacro_ctor sL name0 description0 =
     (case sL of (s, L) \<Rightarrow>
        let L1 = lua_newtable L in
        if \<not> lua_isfunction L1 3
        then (case index2adr (lua_pushstring L1 ''The macro processing function must be a function'') (-1) of
                Some e \<Rightarrow> (Some e, s, L1)
              | None \<Rightarrow> (Some LNil, s, L1))
        else
          let L2 = lua_pushvalue L1 3;
              L3 = lua_rawseti L2 (-2) 1;
              L4 = lua_pushvalue L3 4;
              nv = (\<not> lua_isfunction L4 (-1));
              L5 = lua_rawseti L4 (-2) 2;
              this = FeatureMacro \<lparr>macro_name = name0, macro_description = description0,
                                    no_validate = nv, macro_myid = 0\<rparr>;
              (s1, L6) = LuaFeature_RegisterFeature (s, L5) this;
              L7 = lua_pop L6 1
          in (None, s1, L7))"

definition LuaFeatureMacro_LuaRegister ::
  "luaconf \<Rightarrow> LuaScript \<times> lua_State \<Rightarrow> lua_value option \<times> LuaScript \<times> lua_State" where
  "LuaFeatureMacro_LuaRegister cf sL =
     (let name0 = wxString (lua_tostring cf (snd sL) 1);
          description0 = wxString (lua_tostring cf (snd sL) 2)
      in LuaFeatureMacro_ctor sL name0 description0)"

text \<open>
  \<^verbatim>\<open>LuaFeatureMacro::Validate\<close> (lines 624 to 652).
\<close>

definition Validate ::
  "luaconf \<Rightarrow> closures \<Rightarrow> LuaFeatureMacro \<Rightarrow> lua_State \<times> host_event list \<Rightarrow> AssFile
     \<Rightarrow> c_int list \<Rightarrow> c_int \<Rightarrow> bool \<times> lua_State \<times> host_event list" where
  "Validate cf funs this Lev subs selected active =
     (case Lev of (L, ev) \<Rightarrow>
        if no_validate this then (True, L, ev)
        else
          let L1 = GetFeatureFunction L (macro_myid this) 2;
              L2 = LuaAssFile_new L1 subs False False;
              L3 = CreateIntegerArray L2 selected;
              L4 = lua_pushinteger L3 (-1);
              (L5, err) = lua_pcall funs L4 3 1
          in if err \<noteq> 0
             then
               let errmsg = wxString (lua_tostring cf L5 (-1))
               in (False, lua_pop L5 1,
                   ev @ [wxLogWarning
                           (''Runtime error in Lua macro validation function:'' @ nl @ errmsg)])
             else (lua_toboolean L5 (-1), lua_pop L5 1, ev))"

text \<open>
  \<^verbatim>\<open>LuaFeatureMacro::Process\<close> (lines 662 to 692). \<open>Process_loop\<close> is the loop over
  \<^verbatim>\<open>lua_next\<close> (lines 681 to 687): each step has the key and the value of the entry on
  top of the stack. The result that is stored is an \<^verbatim>\<open>int\<close>.
\<close>

fun Process_loop :: "luaconf \<Rightarrow> lua_State \<Rightarrow> lua_table \<Rightarrow> c_int list \<Rightarrow> c_int list" where
  "Process_loop cf L [] selected = selected"
| "Process_loop cf L ((k, v) # t) selected =
     (let L1 = push v (push k L) in
      Process_loop cf L t
        (if lua_isnumber cf L1 (-1)
         then selected @ [word_of_int (lua_tointeger cf L1 (-1) - 1)]
         else selected))"

definition Process ::
  "luaconf \<Rightarrow> closures \<Rightarrow> LuaFeatureMacro \<Rightarrow> lua_State \<times> host_event list \<Rightarrow> AssFile
     \<Rightarrow> c_int list \<Rightarrow> c_int \<Rightarrow> c_int list \<times> lua_State \<times> host_event list" where
  "Process cf funs this Lev subs selected active =
     (case Lev of (L, ev) \<Rightarrow>
        let L1 = GetFeatureFunction L (macro_myid this) 1;
            subsobj = \<lparr>ass = subs, can_modify = True, can_set_undo = True\<rparr>;
            L2 = LuaAssFile_new L1 subs True True;
            L3 = CreateIntegerArray L2 selected;
            L4 = lua_pushinteger L3 (-1);
            (L5, ev1) = LuaThreadedCall cf funs (L4, ev) 3 1;
            ev2 = ev1 @ [ProcessingComplete subsobj (Some (macro_name this))];
            selected1 =
              (if lua_istable L5 (-1)
               then sort_key sint (Process_loop cf L5 (table_at L5 (-1)) [])
               else selected);
            L6 = lua_pop L5 1
        in (selected1, L6, ev2))"

section \<open>LuaFeatureFilter\<close>

text \<open>
  The constructor (lines 704 to 722) and \<^verbatim>\<open>LuaRegister\<close> (lines 737 to 747).
\<close>

definition LuaFeatureFilter_ctor ::
  "LuaScript \<times> lua_State \<Rightarrow> string \<Rightarrow> string \<Rightarrow> c_int
     \<Rightarrow> lua_value option \<times> LuaScript \<times> lua_State" where
  "LuaFeatureFilter_ctor sL name0 description0 merit =
     (case sL of (s, L) \<Rightarrow>
        let L1 = lua_newtable L in
        if \<not> lua_isfunction L1 4
        then (case index2adr (lua_pushstring L1 ''The filter processing function must be a function'') (-1) of
                Some e \<Rightarrow> (Some e, s, L1)
              | None \<Rightarrow> (Some LNil, s, L1))
        else
          let L2 = lua_pushvalue L1 4;
              L3 = lua_rawseti L2 (-2) 1;
              L4 = lua_pushvalue L3 5;
              hc = lua_isfunction L4 (-1);
              L5 = lua_rawseti L4 (-2) 2;
              this = FeatureFilter \<lparr>filter_name = name0, filter_description = description0,
                                     filter_merit = merit, has_config = hc,
                                     config_dialog = None, filter_myid = 0\<rparr>;
              (s1, L6) = LuaFeature_RegisterFeature (s, L5) this;
              L7 = lua_pop L6 1
          in (None, s1, L7))"

definition LuaFeatureFilter_LuaRegister ::
  "luaconf \<Rightarrow> LuaScript \<times> lua_State \<Rightarrow> lua_value option \<times> LuaScript \<times> lua_State" where
  "LuaFeatureFilter_LuaRegister cf sL =
     (let name0 = wxString (lua_tostring cf (snd sL) 1);
          description0 = wxString (lua_tostring cf (snd sL) 2);
          merit0 = word_of_int (lua_tointeger cf (snd sL) 3)
      in LuaFeatureFilter_ctor sL name0 description0 merit0)"

text \<open>
  \<^verbatim>\<open>LuaFeatureFilter::ProcessSubs\<close> (lines 754 to 785). An assertion that fails ends the
  program; the result is then \<open>Inl\<close> with the text of the assertion.
\<close>

datatype abort = AssertionFailed string

definition ProcessSubs ::
  "luaconf \<Rightarrow> closures \<Rightarrow> LuaFeatureFilter \<Rightarrow> lua_State \<times> host_event list \<Rightarrow> AssFile
     \<Rightarrow> abort + lua_State \<times> host_event list" where
  "ProcessSubs cf funs this Lev subs =
     (case Lev of (L, ev) \<Rightarrow>
        let L1 = GetFeatureFunction L (filter_myid this) 1 in
        if \<not> lua_isfunction L1 (-1) then Inl (AssertionFailed ''lua_isfunction(L, -1)'')
        else
          let subsobj = \<lparr>ass = subs, can_modify = True, can_set_undo = False\<rparr>;
              L2 = LuaAssFile_new L1 subs True False in
          if \<not> lua_isuserdata L2 (-1) then Inl (AssertionFailed ''lua_isuserdata(L, -1)'')
          else
            let (L3, results_produced) =
                  (if has_config this
                   then (case config_dialog this of
                           Some dlg \<Rightarrow> LuaReadBack dlg L2
                         | None \<Rightarrow> (lua_newtable L2, 1))
                   else (lua_newtable L2, 1)) in
            if results_produced \<noteq> 1 then Inl (AssertionFailed ''results_produced == 1'')
            else if \<not> lua_istable L3 (-1) then Inl (AssertionFailed ''lua_istable(L, -1)'')
            else
              let (L4, ev1) = LuaThreadedCall cf funs (L3, ev) 2 0
              in Inr (L4, ev1 @ [ProcessingComplete subsobj None]))"

section \<open>LuaScript\<close>

text \<open>
  The source of a script is what \<^verbatim>\<open>lua_load\<close> makes of the file: a syntax error with
  its message, or a chunk. The chunk is the sequence of the effects of its top level on the
  bridge: it sets a global, raises an error, or calls one of the two registration
  functions with some arguments, either plainly (an error of the function ends the chunk)
  or inside \<^verbatim>\<open>pcall\<close>, which \<^verbatim>\<open>Create\<close> makes available with the base library (the
  script catches the error and goes on).
\<close>

datatype host_function = register_macro | register_filter

datatype chunk_step =
    SetGlobal string lua_value
  | Error lua_value
  | Call host_function "lua_value list"
  | PCall host_function "lua_value list"

datatype script_source = SyntaxError string | Chunk "chunk_step list"

text \<open>
  A registration function runs on a frame of its own that holds the arguments, and the
  stack of the caller is as before when it returns or raises.
\<close>

definition call_host ::
  "luaconf \<Rightarrow> host_function \<Rightarrow> lua_value list \<Rightarrow> LuaScript \<times> lua_State
     \<Rightarrow> lua_value option \<times> LuaScript \<times> lua_State" where
  "call_host cf fn args sL =
     (case sL of (s, L) \<Rightarrow>
        case (case fn of
                register_macro \<Rightarrow> LuaFeatureMacro_LuaRegister cf (s, L\<lparr>stack := args\<rparr>)
              | register_filter \<Rightarrow> LuaFeatureFilter_LuaRegister cf (s, L\<lparr>stack := args\<rparr>)) of
          (err, s1, L1) \<Rightarrow> (err, s1, L1\<lparr>stack := stack L\<rparr>))"

fun run_chunk ::
  "luaconf \<Rightarrow> chunk_step list \<Rightarrow> LuaScript \<times> lua_State
     \<Rightarrow> lua_value option \<times> LuaScript \<times> lua_State" where
  "run_chunk cf [] sL = (None, sL)"
| "run_chunk cf (SetGlobal k v # c) sL =
     run_chunk cf c (fst sL, (snd sL)\<lparr>globals := (globals (snd sL))(k := v)\<rparr>)"
| "run_chunk cf (Error e # c) sL = (Some e, sL)"
| "run_chunk cf (Call fn args # c) sL =
     (case call_host cf fn args sL of
        (Some e, sL1) \<Rightarrow> (Some e, sL1)
      | (None, sL1) \<Rightarrow> run_chunk cf c sL1)"
| "run_chunk cf (PCall fn args # c) sL =
     (case call_host cf fn args sL of (err, sL1) \<Rightarrow> run_chunk cf c sL1)"

text \<open>
  \<^verbatim>\<open>get_global_string\<close> (lines 99 to 106).
\<close>

definition get_global_string :: "luaconf \<Rightarrow> lua_State \<Rightarrow> string \<Rightarrow> string" where
  "get_global_string cf L nm =
     (let L1 = lua_getglobal L nm
      in if lua_isstring L1 (-1) then wxString (lua_tostring cf L1 (-1)) else [])"

text \<open>
  The only exception that the file throws. Its chained message is its message.
\<close>

datatype agi_Exception = ScriptLoadError string

fun GetChainedMessage :: "agi_Exception \<Rightarrow> string" where
  "GetChainedMessage (ScriptLoadError msg) = msg"

text \<open>
  \<^verbatim>\<open>LuaScript::Destroy\<close> (lines 306 to 315).
\<close>

definition Destroy :: "LuaScript \<Rightarrow> LuaScript" where
  "Destroy this =
     (case script_L this of
        None \<Rightarrow> this
      | Some L \<Rightarrow> this\<lparr>features := [], script_L := None\<rparr>)"

text \<open>
  \<^verbatim>\<open>LuaScript::Create\<close> (lines 183 to 304). \<open>Create_registry\<close> is the state after the
  registry was prepared (lines 234 to 242). \<open>Create_try\<close> is the body of the \<^verbatim>\<open>try\<close>
  block: it returns the script object as it is when the block is left, and the exception
  if one was thrown. \<open>Create\<close> adds the first \<^verbatim>\<open>Destroy\<close> and the handler.
\<close>

definition Create_registry :: lua_State where
  "Create_registry =
     (let L0 = lua_open;
          L1 = lua_setfield_REGISTRY (lua_pushlightuserdata L0) ''aegisub'';
          L2 = lua_setfield_REGISTRY (lua_newtable L1) ''features''
      in L2)"

definition Create_try ::
  "luaconf \<Rightarrow> script_source \<Rightarrow> LuaScript \<Rightarrow> LuaScript \<times> agi_Exception option" where
  "Create_try cf src this =
     (let L2 = Create_registry
      in case src of
           SyntaxError msg \<Rightarrow>
             (let L3 = lua_pushstring L2 msg;
                  err = wxString (lua_tostring cf L3 (-1))
              in (this\<lparr>script_L := Some L3\<rparr>,
                  Some (ScriptLoadError
                          (''Error loading Lua script '' @ dq @ GetPrettyFilename this @ dq
                             @ '':'' @ nl @ nl @ err))))
         | Chunk c \<Rightarrow>
             (case run_chunk cf c (this, L2) of
                (Some e, s1, L3) \<Rightarrow>
                  (let L4 = push e L3;
                       err = wxString (lua_tostring cf L4 (-1))
                   in (s1\<lparr>script_L := Some L4\<rparr>,
                       Some (ScriptLoadError
                               (''Error initialising Lua script '' @ dq @ GetPrettyFilename s1
                                  @ dq @ '':'' @ nl @ nl @ err))))
              | (None, s1, L3) \<Rightarrow>
                  (let L4 = lua_getglobal L3 ''version'' in
                   if lua_isnumber cf L4 (-1) \<and> lua_tointeger cf L4 (-1) = 3
                   then (s1\<lparr>script_L := Some (lua_pop L4 1)\<rparr>,
                         Some (ScriptLoadError ''Attempted to load an Automation 3 script as an Automation 4 Lua script. Automation 3 is no longer supported.''))
                   else
                     let nm = get_global_string cf L4 ''script_name'';
                         s2 = s1\<lparr>name := nm,
                                 description := get_global_string cf L4 ''script_description'',
                                 author := get_global_string cf L4 ''script_author'',
                                 version := get_global_string cf L4 ''script_version''\<rparr>;
                         s3 = (if name s2 = [] then s2\<lparr>name := GetPrettyFilename s2\<rparr> else s2);
                         L5 = lua_pop L4 1
                     in (s3\<lparr>script_L := Some L5\<rparr>, None))))"

definition Create :: "luaconf \<Rightarrow> script_source \<Rightarrow> LuaScript \<Rightarrow> LuaScript" where
  "Create cf src this =
     (case Create_try cf src (Destroy this) of
        (s1, None) \<Rightarrow> s1
      | (s1, Some e) \<Rightarrow>
          (let s2 = Destroy s1
           in s2\<lparr>name := GetPrettyFilename s2, description := GetChainedMessage e\<rparr>))"

definition Reload :: "luaconf \<Rightarrow> script_source \<Rightarrow> LuaScript \<Rightarrow> LuaScript" where
  "Reload cf src this = Create cf src this"

section \<open>Notions used to state the properties\<close>

text \<open>
  The table that \<open>CreateIntegerArray\<close> builds for a selection, counting keys from
  \<open>i + 1\<close>.
\<close>

definition int_array :: "nat \<Rightarrow> c_int list \<Rightarrow> lua_table" where
  "int_array i ints =
     map (\<lambda>(j, x). (LNumber (of_int (int j + 1)), LNumber (of_int (sint (x + 1)))))
       (zip [i..<i + length ints] ints)"

text \<open>
  The reading of a returned selection: the numeric entries of a table are the values that
  \<^verbatim>\<open>lua_isnumber\<close> accepts, which are the numbers and the strings that convert to
  numbers, in traversal order; \<open>to_zero_based\<close> is the \<^verbatim>\<open>int\<close> stored for such an entry,
  the integer that \<^verbatim>\<open>lua_tointeger\<close> makes of it decreased by one and cut to 32 bits;
  the value that a call with one expected result leaves is the first returned value, or
  nil.
\<close>

definition numeric_entries :: "luaconf \<Rightarrow> lua_table \<Rightarrow> lua_Number list" where
  "numeric_entries cf t = List.map_filter (luaV_tonumber cf) (map snd t)"

definition to_zero_based :: "lua_Number \<Rightarrow> c_int" where
  "to_zero_based q = word_of_int (lua_number2integer q - 1)"

definition first_result :: "lua_value list \<Rightarrow> lua_value" where
  "first_result vs = (case vs of [] \<Rightarrow> LNil | v # _ \<Rightarrow> v)"

text \<open>
  What \<open>GetFeatureFunction\<close> finds: entry \<open>k\<close> of the table filed under index \<open>i\<close> in
  the registry table \<^verbatim>\<open>features\<close>, and nil where a table is missing. \<open>value_at\<close> is the
  value that \<^verbatim>\<open>lua_pushvalue\<close> copies from an index.
\<close>

definition feature_function :: "lua_State \<Rightarrow> int \<Rightarrow> int \<Rightarrow> lua_value" where
  "feature_function L i k =
     (case registry L ''features'' of
        LTable a \<Rightarrow>
          (case rawget (deref (heap L) a) (LNumber (of_int i)) of
             LTable b \<Rightarrow> rawget (deref (heap L) b) (LNumber (of_int k))
           | _ \<Rightarrow> LNil)
      | _ \<Rightarrow> LNil)"

definition value_at :: "lua_State \<Rightarrow> int \<Rightarrow> lua_value" where
  "value_at L i = (case index2adr L i of Some v \<Rightarrow> v | None \<Rightarrow> LNil)"

text \<open>
  The three ways in which a load fails, for a script object \<open>s\<close> as it is when the
  \<^verbatim>\<open>try\<close> block of \<^verbatim>\<open>Create\<close> is entered: the source does not parse; the top level
  raises an error; the top level ends normally and leaves a global \<^verbatim>\<open>version\<close> that
  \<^verbatim>\<open>lua_isnumber\<close> accepts and \<^verbatim>\<open>lua_tointeger\<close> converts to 3.
\<close>

definition fails_to_parse :: "script_source \<Rightarrow> bool" where
  "fails_to_parse src = (case src of SyntaxError msg \<Rightarrow> True | Chunk c \<Rightarrow> False)"

definition top_level_raises :: "luaconf \<Rightarrow> script_source \<Rightarrow> LuaScript \<Rightarrow> bool" where
  "top_level_raises cf src s =
     (case src of
        SyntaxError msg \<Rightarrow> False
      | Chunk c \<Rightarrow> fst (run_chunk cf c (s, Create_registry)) \<noteq> None)"

definition version_global :: "luaconf \<Rightarrow> script_source \<Rightarrow> LuaScript \<Rightarrow> lua_value" where
  "version_global cf src s =
     (case src of
        SyntaxError msg \<Rightarrow> LNil
      | Chunk c \<Rightarrow> globals (snd (snd (run_chunk cf c (s, Create_registry)))) ''version'')"

definition declares_automation3 :: "luaconf \<Rightarrow> script_source \<Rightarrow> LuaScript \<Rightarrow> bool" where
  "declares_automation3 cf src s =
     (\<not> fails_to_parse src \<and> \<not> top_level_raises cf src s \<and>
      (case luaV_tonumber cf (version_global cf src s) of
         Some q \<Rightarrow> lua_number2integer q = 3
       | None \<Rightarrow> False))"

text \<open>
  The position of the processing function among the arguments of a registration, and the
  error raised when the value there is no function.
\<close>

definition processing_argument :: "host_function \<Rightarrow> int" where
  "processing_argument fn = (case fn of register_macro \<Rightarrow> 3 | register_filter \<Rightarrow> 4)"

definition registration_error :: "host_function \<Rightarrow> string" where
  "registration_error fn =
     (case fn of
        register_macro \<Rightarrow> ''The macro processing function must be a function''
      | register_filter \<Rightarrow> ''The filter processing function must be a function'')"

text \<open>
  A registration is a registration function together with the arguments of one call.
  \<open>call_frame\<close> is the stack frame on which the function finds them. The call is accepted
  when the processing argument is a function, which is then the \<open>processing_function\<close> of
  the registration. \<open>registered_feature\<close> is the object that the constructor of an accepted
  registration builds (lines 593 to 615 for a macro, lines 704 to 722 for a filter), with
  the index \<open>i\<close> as \<^verbatim>\<open>myid\<close>. \<open>registration_calls\<close> is the top level of a script that
  makes the given registrations, one after the other.
\<close>

definition call_frame :: "lua_value list \<Rightarrow> lua_State" where
  "call_frame args = lua_open\<lparr>stack := args\<rparr>"

definition accepted :: "host_function \<times> lua_value list \<Rightarrow> bool" where
  "accepted r = (case r of (fn, args) \<Rightarrow> lua_isfunction (call_frame args) (processing_argument fn))"

definition processing_function :: "host_function \<times> lua_value list \<Rightarrow> lua_value" where
  "processing_function r =
     (case r of (fn, args) \<Rightarrow> value_at (call_frame args) (processing_argument fn))"

definition registered_feature :: "luaconf \<Rightarrow> host_function \<times> lua_value list \<Rightarrow> int \<Rightarrow> Feature" where
  "registered_feature cf r i =
     (case r of (fn, args) \<Rightarrow>
        (case fn of
           register_macro \<Rightarrow>
             FeatureMacro \<lparr>macro_name = wxString (lua_tostring cf (call_frame args) 1),
                            macro_description = wxString (lua_tostring cf (call_frame args) 2),
                            no_validate = (\<not> lua_isfunction (call_frame args) 4),
                            macro_myid = i\<rparr>
         | register_filter \<Rightarrow>
             FeatureFilter \<lparr>filter_name = wxString (lua_tostring cf (call_frame args) 1),
                             filter_description = wxString (lua_tostring cf (call_frame args) 2),
                             filter_merit = word_of_int (lua_tointeger cf (call_frame args) 3),
                             has_config = lua_isfunction (call_frame args) 5,
                             config_dialog = None, filter_myid = i\<rparr>))"

definition registration_calls :: "(host_function \<times> lua_value list) list \<Rightarrow> chunk_step list" where
  "registration_calls regs = map (\<lambda>(fn, args). Call fn args) regs"

text \<open>
  The registry files the registrations \<open>regs\<close>: the registry table \<^verbatim>\<open>features\<close> exists,
  and for every position \<open>j\<close> in \<open>regs\<close> it holds under the key \<open>j\<close> a table of its own
  whose entry 1 is the processing function of the registration at that position.
\<close>

definition registry_files :: "lua_State \<Rightarrow> (host_function \<times> lua_value list) list \<Rightarrow> bool" where
  "registry_files L regs =
     (case registry L ''features'' of
        LTable a \<Rightarrow>
          a < length (heap L) \<and>
          (\<forall>j < length regs.
             case rawget (heap L ! a) (LNumber (of_nat j)) of
               LTable b \<Rightarrow>
                 b < length (heap L) \<and> b \<noteq> a \<and>
                 rawget (heap L ! b) (LNumber 1) = processing_function (regs ! j)
             | _ \<Rightarrow> False)
      | _ \<Rightarrow> False)"

section \<open>Example data\<close>

text \<open>
  A conversion table for running examples: a string of decimal digits reads as the
  natural number it denotes and no other string as a number; a number prints as the
  decimal digits of its integral part.
\<close>

definition digit_of :: "char \<Rightarrow> nat option" where
  "digit_of c = (let n = (of_char c :: nat) in if 48 \<le> n \<and> n \<le> 57 then Some (n - 48) else None)"

fun parse_digits :: "string \<Rightarrow> nat \<Rightarrow> nat option" where
  "parse_digits [] acc = Some acc"
| "parse_digits (c # cs) acc =
     (case digit_of c of None \<Rightarrow> None | Some d \<Rightarrow> parse_digits cs (10 * acc + d))"

fun show_nat :: "nat \<Rightarrow> string" where
  "show_nat n =
     (if n < 10 then [char_of (48 + n)] else show_nat (n div 10) @ [char_of (48 + n mod 10)])"

definition decimal_conf :: luaconf where
  "decimal_conf =
     \<lparr>lua_str2number = (\<lambda>s. if s = [] then None else map_option of_nat (parse_digits s 0)),
      lua_number2str = (\<lambda>q. (if q < 0 then ''-'' else []) @ show_nat (nat \<bar>\<lfloor>q\<rfloor>\<bar>))\<rparr>"

text \<open>
  A script object before its first load, and one after the load of a script that sets its
  author and its version.
\<close>

definition new_script :: "string \<Rightarrow> string \<Rightarrow> LuaScript" where
  "new_script fname pretty =
     \<lparr>filename = fname, pretty_filename = pretty, name = [], description = [], author = [],
      version = [], features = [], script_L = None\<rparr>"

definition example_loaded :: LuaScript where
  "example_loaded =
     Create decimal_conf
       (Chunk [SetGlobal ''script_author'' (LString ''me''),
               SetGlobal ''script_version'' (LString ''1.0'')])
       (new_script ''/a/trim.lua'' ''trim.lua'')"

text \<open>
  A script that registers the macro \<^verbatim>\<open>Trim\<close>, with processing function 0 and validation
  function 1, and the filter \<^verbatim>\<open>F\<close>, with processing function 2 and no configuration
  function; its two registrations; the two features and the Lua state that its load
  produces (lemma \<open>example_state_reached\<close>). Function 0 returns a fresh table with the entries 2,
  \<^verbatim>\<open>"x"\<close> and 1; function 1 raises the error \<^verbatim>\<open>"boom"\<close>; function 2 returns nothing.
\<close>

definition example_script :: script_source where
  "example_script =
     Chunk [Call register_macro [LString ''Trim'', LString ''trims'', LFunction 0, LFunction 1],
            Call register_filter [LString ''F'', LString ''filt'', LNumber 5, LFunction 2]]"

definition example_registrations :: "(host_function \<times> lua_value list) list" where
  "example_registrations =
     [(register_macro, [LString ''Trim'', LString ''trims'', LFunction 0, LFunction 1]),
      (register_filter, [LString ''F'', LString ''filt'', LNumber 5, LFunction 2])]"

definition example_macro :: LuaFeatureMacro where
  "example_macro =
     \<lparr>macro_name = ''Trim'', macro_description = ''trims'', no_validate = False, macro_myid = 0\<rparr>"

definition example_filter :: LuaFeatureFilter where
  "example_filter =
     \<lparr>filter_name = ''F'', filter_description = ''filt'', filter_merit = 5, has_config = False,
      config_dialog = None, filter_myid = 1\<rparr>"

definition example_state :: lua_State where
  "example_state =
     \<lparr>stack = [],
      heap = [[(LNumber 0, LTable 1), (LNumber 1, LTable 2)],
              [(LNumber 1, LFunction 0), (LNumber 2, LFunction 1)],
              [(LNumber 1, LFunction 2), (LNumber 2, LTable 2)]],
      registry = (\<lambda>k. if k = ''features'' then LTable 0
                     else if k = ''aegisub'' then LLightUserdata else LNil),
      globals = (\<lambda>k. LNil), calls = [], api_violation = False\<rparr>"

definition example_closures :: closures where
  "example_closures r args h =
     (if r = 0
      then Returns [LTable (length h)]
             (h @ [[(LNumber 1, LNumber 2), (LNumber 2, LString ''x''), (LNumber 3, LNumber 1)]])
      else if r = 1 then Raises (LString ''boom'')
      else Returns [] h)"

section \<open>Properties\<close>

subsection \<open>The integer-array marshaler\<close>


lemma lua_number2integer_of_int: "lua_number2integer (of_int i) = i"
  by (simp add: lua_number2integer_def)

lemma index2adr_top: "stack L = st @ [v] \<Longrightarrow> index2adr L (-1) = Some v"
  by (simp add: index2adr_def)

lemma index2adr_second: "stack L = st @ [u, v] \<Longrightarrow> index2adr L (-2) = Some u"
  by (simp add: index2adr_def nth_append)

lemma lua_pop_top: "stack L = st @ [v] \<Longrightarrow> lua_pop L 1 = L\<lparr>stack := st\<rparr>"
  by (simp add: lua_pop_def)

lemma rawset_fresh: "k \<notin> fst ` set t \<Longrightarrow> v \<noteq> LNil \<Longrightarrow> rawset t k v = t @ [(k, v)]"
  by (induction t) auto

lemma int_array_Nil: "int_array i [] = []"
  by (simp add: int_array_def)

lemma int_array_Cons:
  "int_array i (x # ints) =
     (LNumber (of_int (int i + 1)), LNumber (of_int (sint (x + 1)))) # int_array (Suc i) ints"
proof -
  have "[i..<i + Suc (length ints)] = i # [Suc i..<i + Suc (length ints)]"
    by (rule upt_conv_Cons) simp
  then show ?thesis
    by (simp add: int_array_def)
qed

lemma lua_rawseti_push:
  assumes "stack L = st @ [LTable a]" and "a < length (heap L)"
  shows "lua_rawseti (lua_pushinteger L v) (-2) n =
           L\<lparr>heap := (heap L)[a := rawset (heap L ! a) (LNumber (of_int n)) (LNumber (of_int v))]\<rparr>"
proof -
  let ?L1 = "lua_pushinteger L v"
  have st1: "stack ?L1 = st @ [LTable a, LNumber (of_int v)]"
    using assms by (simp add: lua_pushinteger_def push_def)
  have h1: "heap ?L1 = heap L"
    by (simp add: lua_pushinteger_def push_def)
  have "index2adr ?L1 (-2) = Some (LTable a)"
    using st1 by (rule index2adr_second)
  moreover have "index2adr ?L1 (-1) = Some (LNumber (of_int v))"
    using st1 by (intro index2adr_top [where st = "st @ [LTable a]"]) simp
  ultimately show ?thesis
    using assms by (simp add: lua_rawseti_def h1 lua_pop_def st1 lua_pushinteger_def push_def)
qed

lemma CreateIntegerArray_loop_eq:
  assumes "stack L = st @ [LTable a]" and "a < length (heap L)"
    and "\<forall>j\<ge>i. LNumber (of_int (int j + 1)) \<notin> fst ` set (heap L ! a)"
  shows "CreateIntegerArray_loop L i ints =
           L\<lparr>heap := (heap L)[a := heap L ! a @ int_array i ints]\<rparr>"
  using assms
proof (induction ints arbitrary: L i)
  case Nil
  then show ?case by (simp add: int_array_Nil)
next
  case (Cons x ints)
  let ?k = "LNumber (of_int (int i + 1))"
  let ?v = "LNumber (of_int (sint (x + 1)))"
  let ?L1 = "L\<lparr>heap := (heap L)[a := heap L ! a @ [(?k, ?v)]]\<rparr>"
  have fresh: "?k \<notin> fst ` set (heap L ! a)"
    using Cons.prems(3) by blast
  have step: "lua_rawseti (lua_pushinteger L (sint (x + 1))) (-2) (int i + 1) = ?L1"
    using Cons.prems(1,2) fresh by (simp add: lua_rawseti_push rawset_fresh)
  have "\<forall>j\<ge>Suc i. LNumber (of_int (int j + 1)) \<notin> fst ` set (heap ?L1 ! a)"
    using Cons.prems(2,3) by auto
  then have "CreateIntegerArray_loop ?L1 (Suc i) ints =
               ?L1\<lparr>heap := (heap ?L1)[a := heap ?L1 ! a @ int_array (Suc i) ints]\<rparr>"
    using Cons.prems(1,2) by (intro Cons.IH) simp_all
  then show ?case
    using Cons.prems(2) by (simp add: step int_array_Cons)
qed

lemma CreateIntegerArray_eq:
  "CreateIntegerArray L ints =
     L\<lparr>stack := stack L @ [LTable (length (heap L))], heap := heap L @ [int_array 0 ints]\<rparr>"
proof -
  let ?L1 = "lua_newtable L"
  have "CreateIntegerArray_loop ?L1 0 ints =
          ?L1\<lparr>heap := (heap ?L1)[length (heap L) := heap ?L1 ! length (heap L) @ int_array 0 ints]\<rparr>"
    by (rule CreateIntegerArray_loop_eq [where st = "stack L"])
       (simp_all add: lua_newtable_def push_def)
  then show ?thesis
    by (simp add: CreateIntegerArray_def lua_newtable_def push_def)
qed

subsection \<open>Reading a selection back\<close>


lemma lua_isnumber_top: "stack L = st @ [v] \<Longrightarrow> lua_isnumber cf L (-1) = (luaV_tonumber cf v \<noteq> None)"
  by (simp add: lua_isnumber_def index2adr_top)

lemma lua_tointeger_top:
  "stack L = st @ [v] \<Longrightarrow>
   lua_tointeger cf L (-1) = (case luaV_tonumber cf v of Some q \<Rightarrow> lua_number2integer q | None \<Rightarrow> 0)"
  by (simp add: lua_tointeger_def index2adr_top)

lemma Process_loop_eq:
  "Process_loop cf L t selected = selected @ map to_zero_based (numeric_entries cf t)"
proof (induction t arbitrary: selected)
  case Nil
  then show ?case by (simp add: numeric_entries_def map_filter_simps)
next
  case (Cons kv t)
  obtain k v where kv: "kv = (k, v)" by (cases kv)
  have top: "stack (push v (push k L)) = (stack L @ [k]) @ [v]"
    by (simp add: push_def)
  show ?case
    by (cases "luaV_tonumber cf v")
       (simp_all add: kv Cons.IH lua_isnumber_top [OF top] lua_tointeger_top [OF top]
          numeric_entries_def map_filter_simps to_zero_based_def)
qed

lemma lua_number2integer_signed: "lua_number2integer (signed w) = sint w"
  using lua_number2integer_of_int [of "sint w"] by simp

lemma inj_sint: "inj_on (sint :: c_int \<Rightarrow> int) A"
  by (rule inj_onI) (rule signed_word_eqI)

lemma to_zero_based_signed: "to_zero_based (signed (x + 1)) = (x :: c_int)"
  by (simp add: to_zero_based_def lua_number2integer_signed)

lemma numeric_entries_int_array: "map to_zero_based (numeric_entries cf (int_array i S)) = S"
proof (induction S arbitrary: i)
  case Nil
  then show ?case by (simp add: int_array_Nil numeric_entries_def map_filter_simps)
next
  case (Cons x S)
  have "map to_zero_based (numeric_entries cf (int_array (Suc i) S)) = S"
    by (rule Cons.IH)
  then show ?case
    by (simp add: int_array_Cons numeric_entries_def map_filter_simps luaV_tonumber_def
          to_zero_based_signed)
qed

lemma mset_numeric_entries:
  assumes "mset t = mset t'"
  shows "mset (numeric_entries cf t) = mset (numeric_entries cf t')"
  using assms by (simp add: numeric_entries_def map_filter_def)

lemma table_at_CreateIntegerArray: "table_at (CreateIntegerArray L S) (-1) = int_array 0 S"
proof -
  have "index2adr (CreateIntegerArray L S) (-1) = Some (LTable (length (heap L)))"
    by (rule index2adr_top [where st = "stack L"]) (simp add: CreateIntegerArray_eq)
  then show ?thesis
    by (simp add: table_at_def deref_def CreateIntegerArray_eq)
qed

text \<open>
  Claim C1. A selection \<open>S\<close> pushed with \<open>CreateIntegerArray\<close> (each index plus one) and
  read back by the loop of \<open>Process\<close> (each entry minus one), then sorted ascending as
  \<open>Process\<close> does, is the ascending sort of \<open>S\<close>. The indices are C \<^verbatim>\<open>int\<close>s and the two
  steps are computed in 32-bit arithmetic, so that the statement includes the largest
  \<^verbatim>\<open>int\<close>. The table may be traversed in any order: \<open>t\<close> is any arrangement of the
  entries of the table that the marshaler left on top of the stack.
\<close>

theorem selection_round_trip:
  assumes "mset t = mset (table_at (CreateIntegerArray L S) (-1))"
  shows "sort_key sint (Process_loop cf L' t []) = sort_key sint S"
proof -
  have "mset (numeric_entries cf t) = mset (numeric_entries cf (int_array 0 S))"
    using assms by (intro mset_numeric_entries) (simp add: table_at_CreateIntegerArray)
  then have "mset (map to_zero_based (numeric_entries cf t)) =
             mset (map to_zero_based (numeric_entries cf (int_array 0 S)))"
    by simp
  then have m: "mset (Process_loop cf L' t []) = mset (sort_key sint S)"
    by (simp add: Process_loop_eq numeric_entries_int_array)
  have "inj_on (sint :: c_int \<Rightarrow> int) (set (Process_loop cf L' t []))"
    by (rule inj_sint)
  then show ?thesis
    using m by (intro sort_key_inj_key_eq) simp_all
qed

theorem selection_round_trip_witness:
  "mset [(LNumber 3, LNumber 2), (LNumber 1, LNumber 3), (LNumber 2, LNumber 1)]
     = mset (table_at (CreateIntegerArray lua_open [2, 0, 1]) (-1))
   \<and> sort_key sint (Process_loop decimal_conf lua_open
        [(LNumber 3, LNumber 2), (LNumber 1, LNumber 3), (LNumber 2, LNumber 1)] [])
     = sort_key sint [2, 0, 1 :: c_int]"
proof -
  have h: "mset [(LNumber 3, LNumber 2), (LNumber 1, LNumber 3), (LNumber 2, LNumber 1)]
             = mset (table_at (CreateIntegerArray lua_open [2, 0, 1]) (-1))"
    by (simp add: table_at_CreateIntegerArray int_array_Cons int_array_Nil)
  show ?thesis
    by (rule conjI [OF h selection_round_trip [OF h]])
qed

subsection \<open>Feature functions and protected calls\<close>


lemma lua_rawgeti_top:
  assumes "stack L = st @ [t]"
  shows "\<exists>v b. lua_rawgeti L (-1) n = L\<lparr>stack := st @ [t, v], api_violation := b\<rparr>"
proof -
  have top: "index2adr L (-1) = Some t"
    using assms by (rule index2adr_top)
  have same: "L\<lparr>stack := st @ [t, v]\<rparr> = L\<lparr>stack := st @ [t, v], api_violation := api_violation L\<rparr>" for v
    by simp
  show ?thesis
  proof (cases "\<exists>a. t = LTable a \<and> a < length (heap L)")
    case True
    then obtain a where "t = LTable a" "a < length (heap L)" by blast
    then have "lua_rawgeti L (-1) n = L\<lparr>stack := st @ [t, rawget (heap L ! a) (LNumber (of_int n))]\<rparr>"
      using top assms by (simp add: lua_rawgeti_def push_def)
    then show ?thesis using same by metis
  next
    case False
    then have "lua_rawgeti L (-1) n = L\<lparr>stack := st @ [t, LNil], api_violation := True\<rparr>"
      using top assms by (cases t) (simp_all add: lua_rawgeti_def push_def)
    then show ?thesis by blast
  qed
qed

lemma lua_remove_second:
  assumes "stack L = st @ [u, v]"
  shows "lua_remove L (-2) = L\<lparr>stack := st @ [v]\<rparr>"
  using assms by (simp add: lua_remove_def Let_def)

lemma GetFeatureFunction_frame:
  "\<exists>v b. GetFeatureFunction L i k = L\<lparr>stack := stack L @ [v], api_violation := b\<rparr>"
proof -
  let ?r = "registry L ''features''"
  have E1: "lua_getfield_REGISTRY L ''features'' = L\<lparr>stack := stack L @ [?r]\<rparr>"
    by (simp add: lua_getfield_REGISTRY_def push_def)
  obtain v2 b2 where E2: "lua_rawgeti (L\<lparr>stack := stack L @ [?r]\<rparr>) (-1) i =
      L\<lparr>stack := stack L @ [?r, v2], api_violation := b2\<rparr>"
    using lua_rawgeti_top [of "L\<lparr>stack := stack L @ [?r]\<rparr>" "stack L" ?r i] by auto
  obtain v3 b3 where E3:
    "lua_rawgeti (L\<lparr>stack := stack L @ [?r, v2], api_violation := b2\<rparr>) (-1) k =
       L\<lparr>stack := stack L @ [?r, v2, v3], api_violation := b3\<rparr>"
    using lua_rawgeti_top [of "L\<lparr>stack := stack L @ [?r, v2], api_violation := b2\<rparr>"
        "stack L @ [?r]" v2 k] by auto
  have E4: "lua_remove (L\<lparr>stack := stack L @ [?r, v2, v3], api_violation := b3\<rparr>) (-2) =
              L\<lparr>stack := stack L @ [?r, v3], api_violation := b3\<rparr>"
    using lua_remove_second [of "L\<lparr>stack := stack L @ [?r, v2, v3], api_violation := b3\<rparr>"
        "stack L @ [?r]" v2 v3] by simp
  have E5: "lua_remove (L\<lparr>stack := stack L @ [?r, v3], api_violation := b3\<rparr>) (-2) =
              L\<lparr>stack := stack L @ [v3], api_violation := b3\<rparr>"
    using lua_remove_second [of "L\<lparr>stack := stack L @ [?r, v3], api_violation := b3\<rparr>"
        "stack L" ?r v3] by simp
  have "GetFeatureFunction L i k = L\<lparr>stack := stack L @ [v3], api_violation := b3\<rparr>"
    by (simp add: GetFeatureFunction_def E1 E2 E3 E4 E5)
  then show ?thesis by blast
qed

lemma GetFeatureFunction_found:
  assumes "stack (GetFeatureFunction L i k) = stack L @ [v]"
  shows "\<exists>b. GetFeatureFunction L i k = L\<lparr>stack := stack L @ [v], api_violation := b\<rparr>"
proof -
  obtain v' b where eq: "GetFeatureFunction L i k = L\<lparr>stack := stack L @ [v'], api_violation := b\<rparr>"
    using GetFeatureFunction_frame by blast
  then have "v' = v" using assms by simp
  then show ?thesis using eq by blast
qed

lemma lua_pcall_function:
  assumes "stack L = below @ LFunction r # args" and "length args = nargs"
  shows "lua_pcall funs L nargs nresults =
           (case funs r args (heap L) of
              Raises e \<Rightarrow>
                (L\<lparr>stack := below @ [e], calls := calls L @ [(r, args)]\<rparr>, LUA_ERRRUN)
            | Returns vs h \<Rightarrow>
                (L\<lparr>stack := below @ adjust_results nresults vs, heap := h,
                   calls := calls L @ [(r, args)]\<rparr>, 0))"
proof -
  have len: "length (stack L) = length below + 1 + nargs"
    using assms by simp
  have a: "drop (length (stack L) - nargs) (stack L) = args"
    using assms by simp
  have f: "stack L ! (length (stack L) - nargs - 1) = LFunction r"
    using assms by (simp add: nth_append)
  have b: "take (length (stack L) - nargs - 1) (stack L) = below"
    using assms by simp
  have n: "\<not> length (stack L) < nargs + 1"
    using len by simp
  show ?thesis
    unfolding lua_pcall_def Let_def a f b using n by simp
qed

lemma adjust_results_one: "adjust_results 1 vs = [first_result vs]"
  by (cases vs) (simp_all add: adjust_results_def first_result_def)

lemma adjust_results_Suc_0: "adjust_results (Suc 0) vs = [first_result vs]"
  using adjust_results_one by simp

lemma adjust_results_zero: "adjust_results 0 vs = []"
  by (simp add: adjust_results_def)

subsection \<open>Validation of a macro\<close>


lemma call_arguments_pushed:
  assumes "GetFeatureFunction L i k = L\<lparr>stack := stack L @ [v], api_violation := b\<rparr>"
  shows "lua_pushinteger (CreateIntegerArray (LuaAssFile_new (GetFeatureFunction L i k) subs m u)
           selected) (-1) =
         L\<lparr>stack := stack L @ [v, LUserdata \<lparr>ass = subs, can_modify = m, can_set_undo = u\<rparr>,
                    LTable (length (heap L)), LNumber (-1)],
           heap := heap L @ [int_array 0 selected], api_violation := b\<rparr>"
  by (simp add: assms LuaAssFile_new_def push_def CreateIntegerArray_eq lua_pushinteger_def)

lemma index2adr_last: "stack L \<noteq> [] \<Longrightarrow> index2adr L (-1) = Some (last (stack L))"
  by (simp add: index2adr_def last_conv_nth Suc_leI)

lemma lua_tostring_top: "stack L = st @ [v] \<Longrightarrow> lua_tostring cf L (-1) = luaV_tostring cf v"
  by (simp add: lua_tostring_def index2adr_top)

lemma lua_istable_top: "stack L = st @ [v] \<Longrightarrow> lua_istable L (-1) = (\<exists>a. v = LTable a)"
  by (cases v) (simp_all add: lua_istable_def index2adr_top)

lemma table_at_top: "stack L = st @ [LTable a] \<Longrightarrow> table_at L (-1) = deref (heap L) a"
  by (simp add: table_at_def index2adr_top)

lemma Validate_error_branch:
  assumes nv: "\<not> no_validate this"
    and fn: "stack (GetFeatureFunction L (macro_myid this) 2) = stack L @ [LFunction f]"
    and raises: "funs f [LUserdata \<lparr>ass = subs, can_modify = False, can_set_undo = False\<rparr>,
                   LTable (length (heap L)), LNumber (-1)]
                  (heap L @ [int_array 0 selected]) = Raises e"
  shows "\<exists>L'. Validate cf funs this (L, ev) subs selected active =
           (False, L',
            ev @ [wxLogWarning (''Runtime error in Lua macro validation function:'' @ nl
                                 @ wxString (luaV_tostring cf e))])
         \<and> stack L' = stack L"
proof -
  obtain b where G: "GetFeatureFunction L (macro_myid this) 2 =
      L\<lparr>stack := stack L @ [LFunction f], api_violation := b\<rparr>"
    using GetFeatureFunction_found [OF fn] by blast
  let ?args = "[LUserdata \<lparr>ass = subs, can_modify = False, can_set_undo = False\<rparr>,
                LTable (length (heap L)), LNumber (-1)]"
  let ?L4 = "L\<lparr>stack := stack L @ LFunction f # ?args,
               heap := heap L @ [int_array 0 selected], api_violation := b\<rparr>"
  have E: "lua_pushinteger (CreateIntegerArray (LuaAssFile_new
             (GetFeatureFunction L (macro_myid this) 2) subs False False) selected) (-1) = ?L4"
    using call_arguments_pushed [OF G] by simp
  let ?L5 = "?L4\<lparr>stack := stack L @ [e], calls := calls ?L4 @ [(f, ?args)]\<rparr>"
  have P: "lua_pcall funs ?L4 3 n = (?L5, LUA_ERRRUN)" for n
    using lua_pcall_function [of ?L4 "stack L" f ?args 3 funs n] raises by simp
  have "Validate cf funs this (L, ev) subs selected active =
          (False, lua_pop ?L5 1,
           ev @ [wxLogWarning (''Runtime error in Lua macro validation function:'' @ nl
                                 @ wxString (luaV_tostring cf e))])"
    using nv by (simp add: Validate_def Let_def E P LUA_ERRRUN_def lua_tostring_def index2adr_last)
  moreover have "stack (lua_pop ?L5 1) = stack L"
    by (simp add: lua_pop_def)
  ultimately show ?thesis by blast
qed

subsection \<open>Processing by a macro\<close>


lemma example_lookup:
  "stack (GetFeatureFunction example_state 0 1) = stack example_state @ [LFunction 0]"
  "stack (GetFeatureFunction example_state 0 2) = stack example_state @ [LFunction 1]"
  "stack (GetFeatureFunction example_state 1 1) = stack example_state @ [LFunction 2]"
  by (simp_all add: GetFeatureFunction_def lua_getfield_REGISTRY_def push_def lua_rawgeti_def
        index2adr_def rawget_def lua_remove_def example_state_def)

lemma Process_returns:
  assumes fn: "stack (GetFeatureFunction L (macro_myid this) 1) = stack L @ [LFunction f]"
    and ret: "funs f [LUserdata \<lparr>ass = subs, can_modify = True, can_set_undo = True\<rparr>,
                LTable (length (heap L)), LNumber (-1)]
               (heap L @ [int_array 0 selected]) = Returns vs h"
  shows "fst (Process cf funs this (L, ev) subs selected active) =
           (case first_result vs of
              LTable a \<Rightarrow> sort_key sint (map to_zero_based (numeric_entries cf (deref h a)))
            | _ \<Rightarrow> selected)"
proof -
  obtain b where G: "GetFeatureFunction L (macro_myid this) 1 =
      L\<lparr>stack := stack L @ [LFunction f], api_violation := b\<rparr>"
    using GetFeatureFunction_found [OF fn] by blast
  let ?args = "[LUserdata \<lparr>ass = subs, can_modify = True, can_set_undo = True\<rparr>,
                LTable (length (heap L)), LNumber (-1)]"
  let ?L4 = "L\<lparr>stack := stack L @ LFunction f # ?args,
               heap := heap L @ [int_array 0 selected], api_violation := b\<rparr>"
  have E: "lua_pushinteger (CreateIntegerArray (LuaAssFile_new
             (GetFeatureFunction L (macro_myid this) 1) subs True True) selected) (-1) = ?L4"
    using call_arguments_pushed [OF G] by simp
  let ?L5 = "?L4\<lparr>stack := stack L @ [first_result vs], heap := h,
               calls := calls ?L4 @ [(f, ?args)]\<rparr>"
  have P: "lua_pcall funs ?L4 3 1 = (?L5, 0)"
    using lua_pcall_function [of ?L4 "stack L" f ?args 3 funs 1] ret
    by (simp add: adjust_results_Suc_0)
  have T: "LuaThreadedCall cf funs (?L4, ev) 3 1 = (?L5, ev)"
    by (simp only: LuaThreadedCall_def lua_threaded_call_def P Let_def prod.case) simp
  have sel: "fst (Process cf funs this (L, ev) subs selected active) =
          (if lua_istable ?L5 (-1)
           then sort_key sint (Process_loop cf ?L5 (table_at ?L5 (-1)) [])
           else selected)"
    by (simp only: Process_def Let_def prod.case E T fst_conv)
  have s5: "stack ?L5 = stack L @ [first_result vs]"
    by simp
  show ?thesis
  proof (cases "first_result vs")
    case (LTable a)
    have "table_at ?L5 (-1) = deref h a"
      using table_at_top [of ?L5 "stack L" a] LTable by simp
    then show ?thesis
      using LTable lua_istable_top [OF s5] by (simp add: sel Process_loop_eq del: One_nat_def)
  qed (use lua_istable_top [OF s5] in \<open>simp_all add: sel\<close>)
qed

subsection \<open>Registration of a macro\<close>


lemma lua_isfunction_push:
  "0 < i \<Longrightarrow>
   lua_isfunction (push v L) i =
     (lua_isfunction L i \<or> (nat i = Suc (length (stack L)) \<and> ttisfunction v))"
proof -
  assume i: "0 < i"
  consider "nat i \<le> length (stack L)" | "nat i = Suc (length (stack L))"
    | "Suc (length (stack L)) < nat i"
    by linarith
  then show ?thesis
  proof cases
    case 1
    then have "nat i - 1 < length (stack L)" using i by linarith
    then show ?thesis
      using 1 i by (simp add: lua_isfunction_def index2adr_def push_def nth_append Let_def)
  next
    case 2
    then show ?thesis
      using i by (simp add: lua_isfunction_def index2adr_def push_def nth_append Let_def)
  next
    case 3
    then show ?thesis
      using i by (simp add: lua_isfunction_def index2adr_def push_def Let_def)
  qed
qed

lemma lua_isfunction_stack: "stack L = stack L' \<Longrightarrow> lua_isfunction L i = lua_isfunction L' i"
  by (simp add: lua_isfunction_def index2adr_def Let_def)

lemma lua_isfunction_newtable: "0 < i \<Longrightarrow> lua_isfunction (lua_newtable L) i = lua_isfunction L i"
proof -
  assume i: "0 < i"
  have "lua_isfunction (lua_newtable L) i = lua_isfunction (push (LTable (length (heap L))) L) i"
    by (rule lua_isfunction_stack) (simp add: lua_newtable_def push_def)
  then show ?thesis
    using i by (simp add: lua_isfunction_push ttisfunction_def)
qed

lemma lua_isfunction_pushvalue_top: "lua_isfunction (lua_pushvalue L i) (-1) = lua_isfunction L i"
  by (cases "index2adr L i")
     (simp_all add: lua_pushvalue_def lua_isfunction_def index2adr_last push_def ttisfunction_def)

lemma stack_lua_pop: "stack (lua_pop L n) = take (length (stack L) - n) (stack L)"
  by (simp add: lua_pop_def)

lemma stack_lua_rawseti: "stack (lua_rawseti L idx n) = butlast (stack L)"
  by (auto simp: lua_rawseti_def stack_lua_pop butlast_conv_take
        split: option.splits lua_value.splits)

lemma stack_lua_pushvalue: "\<exists>v. stack (lua_pushvalue L i) = stack L @ [v]"
  by (simp add: lua_pushvalue_def push_def)

lemma LuaFeature_RegisterFeature_features:
  "fst (LuaFeature_RegisterFeature (s, L) this) =
     s\<lparr>features := features s @ [set_myid this (size_to_int (length (features s)))]\<rparr>"
  by (simp add: LuaFeature_RegisterFeature_def LuaScript_RegisterFeature_def Let_def
        split: prod.splits)

lemma LuaFeatureMacro_ctor_rejects:
  assumes "\<not> lua_isfunction L 3"
  shows "LuaFeatureMacro_ctor (s, L) nm d =
           (Some (LString ''The macro processing function must be a function''), s, lua_newtable L)"
  using assms
  by (simp add: LuaFeatureMacro_ctor_def Let_def lua_isfunction_newtable lua_pushstring_def
        index2adr_last push_def)

lemma LuaFeatureMacro_ctor_accepts:
  assumes "lua_isfunction L 3"
  shows "\<exists>L'. LuaFeatureMacro_ctor (s, L) nm d =
           (None,
            s\<lparr>features := features s @
               [FeatureMacro \<lparr>macro_name = nm, macro_description = d,
                               no_validate = (\<not> lua_isfunction L 4),
                               macro_myid = size_to_int (length (features s))\<rparr>]\<rparr>,
            L')"
proof -
  let ?L1 = "lua_newtable L"
  let ?L3 = "lua_rawseti (lua_pushvalue ?L1 3) (-2) 1"
  let ?L4 = "lua_pushvalue ?L3 4"
  let ?L5 = "lua_rawseti ?L4 (-2) 2"
  let ?feat = "FeatureMacro \<lparr>macro_name = nm, macro_description = d,
                              no_validate = (\<not> lua_isfunction ?L4 (-1)), macro_myid = 0\<rparr>"
  have ok: "lua_isfunction ?L1 3"
    using assms by (simp add: lua_isfunction_newtable)
  obtain v where "stack (lua_pushvalue ?L1 3) = stack ?L1 @ [v]"
    using stack_lua_pushvalue by blast
  then have "stack ?L3 = stack ?L1"
    by (simp add: stack_lua_rawseti)
  then have "lua_isfunction ?L3 4 = lua_isfunction ?L1 4"
    by (rule lua_isfunction_stack)
  then have nv: "lua_isfunction ?L4 (-1) = lua_isfunction L 4"
    by (simp add: lua_isfunction_pushvalue_top lua_isfunction_newtable)
  obtain s1 L6 where R: "LuaFeature_RegisterFeature (s, ?L5) ?feat = (s1, L6)"
    by (cases "LuaFeature_RegisterFeature (s, ?L5) ?feat")
  have s1: "s1 = s\<lparr>features := features s @ [set_myid ?feat (size_to_int (length (features s)))]\<rparr>"
    using LuaFeature_RegisterFeature_features [of s ?L5 ?feat] R by simp
  have "LuaFeatureMacro_ctor (s, L) nm d = (None, s1, lua_pop L6 1)"
    using ok R by (simp add: LuaFeatureMacro_ctor_def Let_def)
  then show ?thesis
    by (simp add: s1 nv)
qed

subsection \<open>The arguments of the script functions of a macro\<close>


lemma Validate_call_arguments:
  assumes nv: "\<not> no_validate this"
    and fn: "stack (GetFeatureFunction L (macro_myid this) 2) = stack L @ [LFunction f]"
  shows "calls (fst (snd (Validate cf funs this (L, ev) subs selected active))) =
           calls L @ [(f, [LUserdata \<lparr>ass = subs, can_modify = False, can_set_undo = False\<rparr>,
                           LTable (length (heap L)), LNumber (-1)])]"
proof -
  obtain b where G: "GetFeatureFunction L (macro_myid this) 2 =
      L\<lparr>stack := stack L @ [LFunction f], api_violation := b\<rparr>"
    using GetFeatureFunction_found [OF fn] by blast
  let ?args = "[LUserdata \<lparr>ass = subs, can_modify = False, can_set_undo = False\<rparr>,
                LTable (length (heap L)), LNumber (-1)]"
  let ?L4 = "L\<lparr>stack := stack L @ LFunction f # ?args,
               heap := heap L @ [int_array 0 selected], api_violation := b\<rparr>"
  have E: "lua_pushinteger (CreateIntegerArray (LuaAssFile_new
             (GetFeatureFunction L (macro_myid this) 2) subs False False) selected) (-1) = ?L4"
    using call_arguments_pushed [OF G] by simp
  have P: "lua_pcall funs ?L4 3 n =
             (case funs f ?args (heap ?L4) of
                Raises e \<Rightarrow>
                  (?L4\<lparr>stack := stack L @ [e], calls := calls ?L4 @ [(f, ?args)]\<rparr>, LUA_ERRRUN)
              | Returns vs h \<Rightarrow>
                  (?L4\<lparr>stack := stack L @ adjust_results n vs, heap := h,
                     calls := calls ?L4 @ [(f, ?args)]\<rparr>, 0))" for n
    by (rule lua_pcall_function) simp_all
  show ?thesis
    using nv
    by (cases "funs f ?args (heap ?L4)")
       (simp_all add: Validate_def Let_def E P LUA_ERRRUN_def lua_pop_def)
qed

lemma Process_call_arguments:
  assumes fn: "stack (GetFeatureFunction L (macro_myid this) 1) = stack L @ [LFunction f]"
  shows "calls (fst (snd (Process cf funs this (L, ev) subs selected active))) =
           calls L @ [(f, [LUserdata \<lparr>ass = subs, can_modify = True, can_set_undo = True\<rparr>,
                           LTable (length (heap L)), LNumber (-1)])]"
proof -
  obtain b where G: "GetFeatureFunction L (macro_myid this) 1 =
      L\<lparr>stack := stack L @ [LFunction f], api_violation := b\<rparr>"
    using GetFeatureFunction_found [OF fn] by blast
  let ?args = "[LUserdata \<lparr>ass = subs, can_modify = True, can_set_undo = True\<rparr>,
                LTable (length (heap L)), LNumber (-1)]"
  let ?L4 = "L\<lparr>stack := stack L @ LFunction f # ?args,
               heap := heap L @ [int_array 0 selected], api_violation := b\<rparr>"
  have E: "lua_pushinteger (CreateIntegerArray (LuaAssFile_new
             (GetFeatureFunction L (macro_myid this) 1) subs True True) selected) (-1) = ?L4"
    using call_arguments_pushed [OF G] by simp
  have P: "lua_pcall funs ?L4 3 n =
             (case funs f ?args (heap ?L4) of
                Raises e \<Rightarrow>
                  (?L4\<lparr>stack := stack L @ [e], calls := calls ?L4 @ [(f, ?args)]\<rparr>, LUA_ERRRUN)
              | Returns vs h \<Rightarrow>
                  (?L4\<lparr>stack := stack L @ adjust_results n vs, heap := h,
                     calls := calls ?L4 @ [(f, ?args)]\<rparr>, 0))" for n
    by (rule lua_pcall_function) simp_all
  show ?thesis
    by (cases "funs f ?args (heap ?L4)")
       (simp_all add: Process_def LuaThreadedCall_def lua_threaded_call_def Let_def E P
          LUA_ERRRUN_def lua_pop_def)
qed

text \<open>
  Claim C5, as evaluated on the code. \<open>Validate\<close> and \<open>Process\<close> are called with active line
  5; the third value that reaches the script function is the constant \<open>-1\<close>, neither 5 nor
  its one-based image 6.
\<close>

theorem active_line_argument_is_minus_one:
  "calls (fst (snd (Validate decimal_conf example_closures example_macro (example_state, [])
                      7 [0] 5))) =
     [(1, [LUserdata \<lparr>ass = 7, can_modify = False, can_set_undo = False\<rparr>, LTable 3,
           LNumber (-1)])]
   \<and> calls (fst (snd (Process decimal_conf example_closures example_macro (example_state, [])
                        7 [0] 5))) =
     [(0, [LUserdata \<lparr>ass = 7, can_modify = True, can_set_undo = True\<rparr>, LTable 3,
           LNumber (-1)])]"
proof -
  have nv: "\<not> no_validate example_macro"
    by (simp add: example_macro_def)
  have f2: "stack (GetFeatureFunction example_state (macro_myid example_macro) 2) =
              stack example_state @ [LFunction 1]"
    using example_lookup(2) by (simp add: example_macro_def)
  have f1: "stack (GetFeatureFunction example_state (macro_myid example_macro) 1) =
              stack example_state @ [LFunction 0]"
    using example_lookup(1) by (simp add: example_macro_def)
  have c: "calls example_state = []" and h: "length (heap example_state) = 3"
    by (simp_all add: example_state_def)
  show ?thesis
    using Validate_call_arguments [OF nv f2, of decimal_conf example_closures "[]" 7 "[0]" 5]
      Process_call_arguments [OF f1, of decimal_conf example_closures "[]" 7 "[0]" 5]
    by (simp add: c h)
qed

subsection \<open>Selection returned, failing validator, missing validator\<close>


lemma map_sort_key: "map f (sort_key f xs) = sort (map f xs)"
proof (rule properties_for_sort [symmetric])
  show "mset (map f (sort_key f xs)) = mset (map f xs)"
    by simp
  show "sorted (map f (sort_key f xs))"
    by (rule sorted_sort_key)
qed

lemma sint_c_int_of_int:
  assumes "- (2 ^ 31) \<le> k" and "k < 2 ^ 31"
  shows "sint (word_of_int k :: c_int) = k"
  using assms by (simp add: sint_sbintrunc' signed_take_bit_int_eq_self)

lemma sint_to_zero_based:
  assumes "- (2 ^ 31) < lua_number2integer q" and "lua_number2integer q < 2 ^ 31"
  shows "sint (to_zero_based q) = lua_number2integer q - 1"
  unfolding to_zero_based_def using assms by (intro sint_c_int_of_int) simp_all

text \<open>
  Claim C2, amended. The first assumption says that the registry holds \<open>f\<close> as
  processing function of the macro (lemma \<open>registered_macro_is_found\<close> shows that
  registration establishes it); the second, that the call of \<open>f\<close> which \<open>Process\<close> makes
  returns the values \<open>vs\<close> and leaves the table store \<open>h\<close>. \<open>Process\<close> asks for one result,
  so the value it inspects is \<open>first_result vs\<close>. The numeric entries of a table are the
  entries that \<^verbatim>\<open>lua_isnumber\<close> accepts: numbers, and strings that convert to numbers.
  The third assumption keeps the integer \<open>n\<close> that \<^verbatim>\<open>lua_tointeger\<close> makes of each of
  them strictly between \<open>- 2^31\<close> and \<open>2^31\<close>, so that \<open>n\<close> fits \<^verbatim>\<open>lua_Integer\<close> on
  every platform and \<open>n - 1\<close> fits the \<^verbatim>\<open>int\<close> in which the selection stores it.
  Then, if the value is a table, the selection, read as integers, is the list of the
  \<open>n - 1\<close> of the numeric entries sorted ascending, all other entries being skipped; if
  the value is not a table, the selection that was passed in is returned.
\<close>

theorem Process_reads_returned_selection:
  assumes "stack (GetFeatureFunction L (macro_myid this) 1) = stack L @ [LFunction f]"
    and "funs f [LUserdata \<lparr>ass = subs, can_modify = True, can_set_undo = True\<rparr>,
                LTable (length (heap L)), LNumber (-1)]
               (heap L @ [int_array 0 selected]) = Returns vs h"
    and "\<forall>a. first_result vs = LTable a \<longrightarrow>
           (\<forall>q \<in> set (numeric_entries cf (deref h a)).
              - (2 ^ 31) < lua_number2integer q \<and> lua_number2integer q < 2 ^ 31)"
  shows "case first_result vs of
           LTable a \<Rightarrow>
             map sint (fst (Process cf funs this (L, ev) subs selected active)) =
               sort (map (\<lambda>q. lua_number2integer q - 1) (numeric_entries cf (deref h a)))
         | _ \<Rightarrow> fst (Process cf funs this (L, ev) subs selected active) = selected"
proof -
  have P: "fst (Process cf funs this (L, ev) subs selected active) =
           (case first_result vs of
              LTable a \<Rightarrow> sort_key sint (map to_zero_based (numeric_entries cf (deref h a)))
            | _ \<Rightarrow> selected)"
    using assms(1,2) by (rule Process_returns)
  show ?thesis
  proof (cases "first_result vs")
    case (LTable a)
    have "map sint (map to_zero_based (numeric_entries cf (deref h a))) =
            map (\<lambda>q. lua_number2integer q - 1) (numeric_entries cf (deref h a))"
      using assms(3) LTable by (simp add: sint_to_zero_based)
    then have "map sint (sort_key sint (map to_zero_based (numeric_entries cf (deref h a)))) =
            sort (map (\<lambda>q. lua_number2integer q - 1) (numeric_entries cf (deref h a)))"
      by (simp only: map_sort_key)
    then show ?thesis
      using P LTable by simp
  qed (use P in simp_all)
qed

theorem Process_reads_returned_selection_witness:
  "stack (GetFeatureFunction example_state (macro_myid example_macro) 1) =
     stack example_state @ [LFunction 0]
   \<and> example_closures 0
       [LUserdata \<lparr>ass = 7, can_modify = True, can_set_undo = True\<rparr>,
        LTable (length (heap example_state)), LNumber (-1)]
       (heap example_state @ [int_array 0 [0]]) =
     Returns [LTable 4]
       (heap example_state @ [int_array 0 [0]] @
          [[(LNumber 1, LNumber 2), (LNumber 2, LString ''x''), (LNumber 3, LNumber 1)]])
   \<and> numeric_entries decimal_conf
        [(LNumber 1, LNumber 2), (LNumber 2, LString ''x''), (LNumber 3, LNumber 1)] = [2, 1]
   \<and> map sint (fst (Process decimal_conf example_closures example_macro (example_state, [])
                      7 [0] 0)) = [0, 1]"
proof -
  let ?h = "heap example_state @ [int_array 0 [0]] @
          [[(LNumber 1, LNumber 2), (LNumber 2, LString ''x''), (LNumber 3, LNumber 1)]]"
  have f1: "stack (GetFeatureFunction example_state (macro_myid example_macro) 1) =
              stack example_state @ [LFunction 0]"
    using example_lookup(1) by (simp add: example_macro_def)
  have r: "example_closures 0
       [LUserdata \<lparr>ass = 7, can_modify = True, can_set_undo = True\<rparr>,
        LTable (length (heap example_state)), LNumber (-1)]
       (heap example_state @ [int_array 0 [0]]) = Returns [LTable 4] ?h"
    by (simp add: example_closures_def example_state_def)
  have d: "deref ?h 4 = [(LNumber 1, LNumber 2), (LNumber 2, LString ''x''), (LNumber 3, LNumber 1)]"
    by (simp add: deref_def example_state_def nth_append)
  have n: "numeric_entries decimal_conf
             [(LNumber 1, LNumber 2), (LNumber 2, LString ''x''), (LNumber 3, LNumber 1)] = [2, 1]"
    by (simp add: numeric_entries_def map_filter_simps luaV_tonumber_def decimal_conf_def
          digit_of_def)
  have rg: "\<forall>a. first_result [LTable 4] = LTable a \<longrightarrow>
           (\<forall>q \<in> set (numeric_entries decimal_conf (deref ?h a)).
              - (2 ^ 31) < lua_number2integer q \<and> lua_number2integer q < 2 ^ 31)"
    by (simp only: first_result_def list.case lua_value.inject simp_thms d n)
       (simp add: lua_number2integer_def)
  have z: "sort (map (\<lambda>q. lua_number2integer q - 1) [2, 1]) = [0, 1]"
    by (simp add: lua_number2integer_def)
  have "map sint (fst (Process decimal_conf example_closures example_macro (example_state, [])
                         7 [0] 0)) = [0, 1]"
    using Process_reads_returned_selection [where this = example_macro and L = example_state
        and f = 0 and funs = example_closures and subs = 7 and selected = "[0]"
        and cf = decimal_conf and ev = "[]" and active = 0, OF f1 r rg]
    by (simp only: first_result_def list.case lua_value.case d n z)
  then show ?thesis
    using f1 r n by blast
qed

text \<open>
  Claim C2 as stated fails: a processing function returns a table whose only
  entry is the string \<^verbatim>\<open>"7"\<close>, which is not a number, and yet the entry is not skipped:
  the selection becomes line 6. Another returns a table whose only entry is the number
  2147483649: the zero-based index 2147483648 does not fit an \<^verbatim>\<open>int\<close>, and the selection
  becomes the single line -2147483648.
\<close>

theorem returned_string_and_large_number_are_converted:
  "fst (Process decimal_conf
          (\<lambda>r args h. Returns [LTable (length h)] (h @ [[(LNumber 1, LString ''7'')]]))
          example_macro (example_state, []) 7 [0] 0) = [6]
   \<and> map sint (fst (Process decimal_conf
          (\<lambda>r args h. Returns [LTable (length h)] (h @ [[(LNumber 1, LNumber 2147483649)]]))
          example_macro (example_state, []) 7 [0] 0)) = [- 2147483648]"
proof -
  have f1: "stack (GetFeatureFunction example_state (macro_myid example_macro) 1) =
              stack example_state @ [LFunction 0]"
    using example_lookup(1) by (simp add: example_macro_def)
  let ?h0 = "heap example_state @ [int_array 0 [0]]"
  let ?args = "[LUserdata \<lparr>ass = 7, can_modify = True, can_set_undo = True\<rparr>,
                LTable (length (heap example_state)), LNumber (-1)]"
  have len: "length ?h0 = 4"
    by (simp add: example_state_def)
  have d: "deref (?h0 @ [t]) 4 = t" for t
    using len by (simp add: deref_def nth_append)
  let ?fs = "\<lambda>(r :: nat) (args :: lua_value list) h.
               Returns [LTable (length h)] (h @ [[(LNumber 1, LString ''7'')]])"
  let ?fn = "\<lambda>(r :: nat) (args :: lua_value list) h.
               Returns [LTable (length h)] (h @ [[(LNumber 1, LNumber 2147483649)]])"
  have rs: "?fs 0 ?args ?h0 = Returns [LTable 4] (?h0 @ [[(LNumber 1, LString ''7'')]])"
    using len by simp
  have rn: "?fn 0 ?args ?h0 = Returns [LTable 4] (?h0 @ [[(LNumber 1, LNumber 2147483649)]])"
    using len by simp
  have ns: "numeric_entries decimal_conf [(LNumber 1, LString ''7'')] = [7]"
    by (simp add: numeric_entries_def map_filter_simps luaV_tonumber_def decimal_conf_def
          digit_of_def)
  have nn: "numeric_entries decimal_conf [(LNumber 1, LNumber 2147483649)] = [2147483649]"
    by (simp add: numeric_entries_def map_filter_simps luaV_tonumber_def)
  have zs: "to_zero_based 7 = 6"
    by (simp add: to_zero_based_def lua_number2integer_def)
  have zn: "sint (to_zero_based 2147483649) = - 2147483648"
    by (simp add: to_zero_based_def lua_number2integer_def)
  have "fst (Process decimal_conf ?fs example_macro (example_state, []) 7 [0] 0) = [6]"
    using Process_returns [where this = example_macro and L = example_state
        and f = 0 and funs = ?fs and subs = 7 and selected = "[0]"
        and cf = decimal_conf and ev = "[]" and active = 0, OF f1 rs]
    by (simp only: first_result_def list.case lua_value.case d ns list.map zs sort_key_simps
          insort_key.simps)
  moreover have "map sint (fst (Process decimal_conf ?fn example_macro (example_state, [])
                                  7 [0] 0)) = [- 2147483648]"
    using Process_returns [where this = example_macro and L = example_state
        and f = 0 and funs = ?fn and subs = 7 and selected = "[0]"
        and cf = decimal_conf and ev = "[]" and active = 0, OF f1 rn]
    by (simp only: first_result_def list.case lua_value.case d nn list.map zn sort_key_simps
          insort_key.simps)
  ultimately show ?thesis
    by (rule conjI)
qed

text \<open>
  Claim C6. The macro has a validation function: \<open>no_validate\<close> is not set and the registry
  holds \<open>f\<close> as function number 2 of the macro. The call of \<open>f\<close> made by \<open>Validate\<close>
  raises the error value \<open>e\<close>. Then \<open>Validate\<close> returns false, appends one warning with
  the text of the error to the log, and leaves the Lua stack as it found it. \<open>Validate\<close>
  has no other way to end: its result is always a boolean with the new state.
\<close>

theorem Validate_runtime_error_returns_false:
  assumes "\<not> no_validate this"
    and "stack (GetFeatureFunction L (macro_myid this) 2) = stack L @ [LFunction f]"
    and "funs f [LUserdata \<lparr>ass = subs, can_modify = False, can_set_undo = False\<rparr>,
                   LTable (length (heap L)), LNumber (-1)]
                  (heap L @ [int_array 0 selected]) = Raises e"
  shows "\<exists>L'. Validate cf funs this (L, ev) subs selected active =
           (False, L',
            ev @ [wxLogWarning (''Runtime error in Lua macro validation function:'' @ nl
                                 @ wxString (luaV_tostring cf e))])
         \<and> stack L' = stack L"
  using assms by (rule Validate_error_branch)

theorem Validate_runtime_error_returns_false_witness:
  "\<not> no_validate example_macro
   \<and> stack (GetFeatureFunction example_state (macro_myid example_macro) 2) =
       stack example_state @ [LFunction 1]
   \<and> example_closures 1
       [LUserdata \<lparr>ass = 7, can_modify = False, can_set_undo = False\<rparr>,
        LTable (length (heap example_state)), LNumber (-1)]
       (heap example_state @ [int_array 0 [0]]) = Raises (LString ''boom'')
   \<and> (\<exists>L'. Validate decimal_conf example_closures example_macro (example_state, []) 7 [0] 0 =
           (False, L',
            [] @ [wxLogWarning (''Runtime error in Lua macro validation function:'' @ nl
                                 @ wxString (luaV_tostring decimal_conf (LString ''boom'')))])
         \<and> stack L' = stack example_state)"
proof -
  have nv: "\<not> no_validate example_macro"
    by (simp add: example_macro_def)
  have f2: "stack (GetFeatureFunction example_state (macro_myid example_macro) 2) =
              stack example_state @ [LFunction 1]"
    using example_lookup(2) by (simp add: example_macro_def)
  have r: "example_closures 1
       [LUserdata \<lparr>ass = 7, can_modify = False, can_set_undo = False\<rparr>,
        LTable (length (heap example_state)), LNumber (-1)]
       (heap example_state @ [int_array 0 [0]]) = Raises (LString ''boom'')"
    by (simp add: example_closures_def)
  show ?thesis
    using nv f2 r
      Validate_runtime_error_returns_false [where this = example_macro and L = example_state
        and f = 1 and funs = example_closures and subs = 7 and selected = "[0]"
        and e = "LString ''boom''" and cf = decimal_conf and ev = "[]" and active = 0, OF nv f2 r]
    by blast
qed

text \<open>
  Claim C10. A macro registration whose third argument is a function and whose fourth
  argument is anything but a function (a number, a string, a table, nil, or no fourth
  argument at all) raises no error and registers a macro with \<open>no_validate\<close> set. For that
  macro \<open>Validate\<close> returns true on every input and leaves the Lua state and the log
  untouched, so no script function is called.
\<close>

theorem non_function_validator_is_no_validator:
  assumes "lua_isfunction L 3" and "\<not> lua_isfunction L 4"
  shows "\<exists>s' L' m. LuaFeatureMacro_LuaRegister cf (s, L) = (None, s', L')
           \<and> features s' = features s @ [FeatureMacro m] \<and> no_validate m
           \<and> (\<forall>cf' funs Lv ev subs selected active.
                 Validate cf' funs m (Lv, ev) subs selected active = (True, Lv, ev))"
proof -
  let ?m = "\<lparr>macro_name = wxString (lua_tostring cf L 1),
             macro_description = wxString (lua_tostring cf L 2),
             no_validate = (\<not> lua_isfunction L 4), macro_myid = size_to_int (length (features s))\<rparr>"
  obtain L' where "LuaFeatureMacro_LuaRegister cf (s, L) =
      (None, s\<lparr>features := features s @ [FeatureMacro ?m]\<rparr>, L')"
    using LuaFeatureMacro_ctor_accepts [OF assms(1), of s "wxString (lua_tostring cf L 1)"
        "wxString (lua_tostring cf L 2)"]
    by (auto simp: LuaFeatureMacro_LuaRegister_def Let_def)
  moreover have "no_validate ?m"
    using assms(2) by simp
  moreover have "\<forall>cf' funs Lv ev subs selected active.
      Validate cf' funs ?m (Lv, ev) subs selected active = (True, Lv, ev)"
    using assms(2) by (simp add: Validate_def)
  ultimately show ?thesis
    by (intro exI [of _ "s\<lparr>features := features s @ [FeatureMacro ?m]\<rparr>"] exI [of _ L']
          exI [of _ ?m]) simp
qed

theorem non_function_validator_is_no_validator_witness:
  "lua_isfunction (lua_open\<lparr>stack := [LString ''Trim'', LString ''trims'', LFunction 0, LNumber 5]\<rparr>) 3
   \<and> \<not> lua_isfunction (lua_open\<lparr>stack := [LString ''Trim'', LString ''trims'', LFunction 0, LNumber 5]\<rparr>) 4
   \<and> (\<exists>s' L' m. LuaFeatureMacro_LuaRegister decimal_conf
           (new_script ''/a/trim.lua'' ''trim.lua'',
            lua_open\<lparr>stack := [LString ''Trim'', LString ''trims'', LFunction 0, LNumber 5]\<rparr>) =
             (None, s', L')
           \<and> features s' = features (new_script ''/a/trim.lua'' ''trim.lua'') @ [FeatureMacro m]
           \<and> no_validate m
           \<and> (\<forall>cf' funs Lv ev subs selected active.
                 Validate cf' funs m (Lv, ev) subs selected active = (True, Lv, ev)))"
proof -
  let ?L = "lua_open\<lparr>stack := [LString ''Trim'', LString ''trims'', LFunction 0, LNumber 5]\<rparr>"
  have a: "lua_isfunction ?L 3"
    by (simp add: lua_isfunction_def index2adr_def ttisfunction_def)
  have b: "\<not> lua_isfunction ?L 4"
    by (simp add: lua_isfunction_def index2adr_def ttisfunction_def)
  show ?thesis
    using a b non_function_validator_is_no_validator [OF a b] by blast
qed

subsection \<open>Processing by an export filter\<close>


lemma lua_isfunction_top: "stack L = st @ [v] \<Longrightarrow> lua_isfunction L (-1) = ttisfunction v"
  by (simp add: lua_isfunction_def index2adr_top)

lemma ProcessSubs_config_pushed:
  "\<exists>t. (if has_config this
         then (case config_dialog this of
                 Some dlg \<Rightarrow> LuaReadBack dlg L2
               | None \<Rightarrow> (lua_newtable L2, 1))
         else (lua_newtable L2, 1)) =
        (L2\<lparr>stack := stack L2 @ [LTable (length (heap L2))], heap := heap L2 @ [t]\<rparr>, 1)"
proof (cases "has_config this \<and> config_dialog this \<noteq> None")
  case True
  then obtain dlg where "config_dialog this = Some dlg" by blast
  then show ?thesis
    using True by (intro exI [of _ dlg]) (simp add: LuaReadBack_def push_def)
next
  case False
  then show ?thesis
    by (intro exI [of _ "[]"]) (auto simp: lua_newtable_def push_def)
qed

lemma ProcessSubs_function:
  assumes fn: "stack (GetFeatureFunction L (filter_myid this) 1) = stack L @ [LFunction r]"
  shows "\<exists>L' cfg ps. ProcessSubs cf funs this (L, ev) subs = Inr (L',
             ev @ ps @ [ProcessingComplete \<lparr>ass = subs, can_modify = True, can_set_undo = False\<rparr> None])
         \<and> calls L' = calls L @
               [(r, [LUserdata \<lparr>ass = subs, can_modify = True, can_set_undo = False\<rparr>, cfg])]"
proof -
  obtain b where G: "GetFeatureFunction L (filter_myid this) 1 =
      L\<lparr>stack := stack L @ [LFunction r], api_violation := b\<rparr>"
    using GetFeatureFunction_found [OF fn] by blast
  let ?ud = "LUserdata \<lparr>ass = subs, can_modify = True, can_set_undo = False\<rparr>"
  let ?L2 = "L\<lparr>stack := stack L @ [LFunction r, ?ud], api_violation := b\<rparr>"
  have E2: "LuaAssFile_new (GetFeatureFunction L (filter_myid this) 1) subs True False = ?L2"
    by (simp add: G LuaAssFile_new_def push_def)
  obtain t where C: "(if has_config this
         then (case config_dialog this of
                 Some dlg \<Rightarrow> LuaReadBack dlg ?L2
               | None \<Rightarrow> (lua_newtable ?L2, 1))
         else (lua_newtable ?L2, 1)) =
              (?L2\<lparr>stack := stack ?L2 @ [LTable (length (heap ?L2))],
                  heap := heap ?L2 @ [t]\<rparr>, 1)"
    using ProcessSubs_config_pushed [of this ?L2] by blast
  let ?args = "[?ud, LTable (length (heap L))]"
  let ?L3 = "L\<lparr>stack := stack L @ LFunction r # ?args, heap := heap L @ [t],
               api_violation := b\<rparr>"
  have C': "(if has_config this
         then (case config_dialog this of
                 Some dlg \<Rightarrow> LuaReadBack dlg ?L2
               | None \<Rightarrow> (lua_newtable ?L2, 1))
         else (lua_newtable ?L2, 1)) = (?L3, 1)"
    unfolding C by simp
  have a1: "lua_isfunction (GetFeatureFunction L (filter_myid this) 1) (-1)"
    using lua_isfunction_top [OF fn] by (simp add: ttisfunction_def)
  have a2: "lua_isuserdata ?L2 (-1)"
    by (simp add: lua_isuserdata_def index2adr_last)
  have a3: "lua_istable ?L3 (-1)"
    by (simp add: lua_istable_def index2adr_last)
  have P: "lua_pcall funs ?L3 2 n =
             (case funs r ?args (heap ?L3) of
                Raises e \<Rightarrow>
                  (?L3\<lparr>stack := stack L @ [e], calls := calls ?L3 @ [(r, ?args)]\<rparr>, LUA_ERRRUN)
              | Returns vs h \<Rightarrow>
                  (?L3\<lparr>stack := stack L @ adjust_results n vs, heap := h,
                     calls := calls ?L3 @ [(r, ?args)]\<rparr>, 0))" for n
    by (rule lua_pcall_function) simp_all
  have PS: "ProcessSubs cf funs this (L, ev) subs =
          (case LuaThreadedCall cf funs (?L3, ev) 2 0 of
             (L4, ev1) \<Rightarrow> Inr (L4, ev1 @ [ProcessingComplete \<lparr>ass = subs, can_modify = True,
                                                             can_set_undo = False\<rparr> None]))"
    using a1 a2 a3
    by (simp only: ProcessSubs_def Let_def prod.case E2 C' simp_thms if_True if_False)
  show ?thesis
  proof (cases "funs r ?args (heap ?L3)")
    case (Raises e)
    then show ?thesis
      unfolding PS
      by (intro exI [of _ "lua_pop (?L3\<lparr>stack := stack L @ [e], calls := calls ?L3 @ [(r, ?args)]\<rparr>) 1"]
            exI [of _ "LTable (length (heap L))"]
            exI [of _ "[ProgressLog (nl @ nl @ ''Lua reported a runtime error:'' @ nl),
                        ProgressLog (wxString (lua_tostring cf
                          (?L3\<lparr>stack := stack L @ [e], calls := calls ?L3 @ [(r, ?args)]\<rparr>) (-1)))]"])
         (simp add: LuaThreadedCall_def lua_threaded_call_def P LUA_ERRRUN_def lua_pop_def)
  next
    case (Returns vs h)
    then show ?thesis
      unfolding PS
      by (intro exI [of _ "?L3\<lparr>stack := stack L @ adjust_results 0 vs, heap := h,
                             calls := calls ?L3 @ [(r, ?args)]\<rparr>"]
            exI [of _ "LTable (length (heap L))"] exI [of _ "[]"])
         (simp add: LuaThreadedCall_def lua_threaded_call_def P)
  qed
qed

lemma ProcessSubs_not_function:
  assumes "\<not> lua_isfunction (GetFeatureFunction L (filter_myid this) 1) (-1)"
  shows "ProcessSubs cf funs this (L, ev) subs = Inl (AssertionFailed ''lua_isfunction(L, -1)'')"
  using assms by (simp add: ProcessSubs_def Let_def)

text \<open>
  Claim C4. Whenever \<open>ProcessSubs\<close> runs to its end, for any filter, document, script
  behaviour and starting state, it made exactly one call into the script, the first argument
  of that call was a document snapshot with modification allowed and undo disallowed, and
  the same snapshot received the final \<open>ProcessingComplete\<close>. (When the first assertion of
  \<open>ProcessSubs\<close> fails the function stops before any snapshot exists.)
\<close>

theorem ProcessSubs_snapshot_modifiable_not_undoable:
  assumes "ProcessSubs cf funs this (L, ev) subs = Inr (L', ev')"
  shows "\<exists>r cfg ps.
           calls L' = calls L @
             [(r, [LUserdata \<lparr>ass = subs, can_modify = True, can_set_undo = False\<rparr>, cfg])]
           \<and> ev' = ev @ ps @
               [ProcessingComplete \<lparr>ass = subs, can_modify = True, can_set_undo = False\<rparr> None]"
proof -
  have isf: "lua_isfunction (GetFeatureFunction L (filter_myid this) 1) (-1)"
    using assms ProcessSubs_not_function by fastforce
  obtain v b where G: "GetFeatureFunction L (filter_myid this) 1 =
      L\<lparr>stack := stack L @ [v], api_violation := b\<rparr>"
    using GetFeatureFunction_frame by blast
  then have st: "stack (GetFeatureFunction L (filter_myid this) 1) = stack L @ [v]"
    by simp
  have "ttisfunction v"
    using isf lua_isfunction_top [OF st] by simp
  then obtain r where "v = LFunction r"
    by (cases v) (simp_all add: ttisfunction_def)
  then have "stack (GetFeatureFunction L (filter_myid this) 1) = stack L @ [LFunction r]"
    using st by simp
  from ProcessSubs_function [OF this, of cf funs ev subs] assms
  show ?thesis by auto
qed

theorem ProcessSubs_snapshot_modifiable_not_undoable_witness:
  "\<exists>L' ev'. ProcessSubs decimal_conf example_closures example_filter (example_state, []) 7 =
               Inr (L', ev')
     \<and> (\<exists>r cfg ps.
           calls L' = calls example_state @
             [(r, [LUserdata \<lparr>ass = 7, can_modify = True, can_set_undo = False\<rparr>, cfg])]
           \<and> ev' = [] @ ps @
               [ProcessingComplete \<lparr>ass = 7, can_modify = True, can_set_undo = False\<rparr> None])"
proof -
  have "stack (GetFeatureFunction example_state (filter_myid example_filter) 1) =
          stack example_state @ [LFunction 2]"
    using example_lookup(3) by (simp add: example_filter_def)
  then obtain L' ev' where
    r: "ProcessSubs decimal_conf example_closures example_filter (example_state, []) 7 = Inr (L', ev')"
    using ProcessSubs_function [of example_state example_filter 2 decimal_conf example_closures "[]" 7]
    by blast
  show ?thesis
    using r ProcessSubs_snapshot_modifiable_not_undoable [OF r] by blast
qed

subsection \<open>Indices of registered features\<close>


lemma size_to_int_exact:
  assumes "n < 2 ^ 31"
  shows "size_to_int n = int n"
proof -
  have "size_to_int n = sint (word_of_int (int n) :: c_int)"
    by (simp add: size_to_int_def)
  also have "\<dots> = int n"
    using assms by (intro sint_c_int_of_int) simp_all
  finally show ?thesis .
qed

lemma LuaScript_RegisterFeature_index:
  "LuaScript_RegisterFeature s f =
     (s\<lparr>features := features s @ [f]\<rparr>, size_to_int (length (features s)))"
  by (simp add: LuaScript_RegisterFeature_def)

subsection \<open>Registration calls of a script\<close>


lemma LuaFeatureFilter_ctor_rejects:
  assumes "\<not> lua_isfunction L 4"
  shows "LuaFeatureFilter_ctor (s, L) nm d mer =
           (Some (LString ''The filter processing function must be a function''), s, lua_newtable L)"
  using assms
  by (simp add: LuaFeatureFilter_ctor_def Let_def lua_isfunction_newtable lua_pushstring_def
        index2adr_last push_def)

lemma LuaFeatureFilter_ctor_accepts:
  assumes "lua_isfunction L 4"
  shows "\<exists>L'. LuaFeatureFilter_ctor (s, L) nm d mer =
           (None,
            s\<lparr>features := features s @
               [FeatureFilter \<lparr>filter_name = nm, filter_description = d, filter_merit = mer,
                                has_config = lua_isfunction L 5, config_dialog = None,
                                filter_myid = size_to_int (length (features s))\<rparr>]\<rparr>,
            L')"
proof -
  let ?L1 = "lua_newtable L"
  let ?L3 = "lua_rawseti (lua_pushvalue ?L1 4) (-2) 1"
  let ?L4 = "lua_pushvalue ?L3 5"
  let ?L5 = "lua_rawseti ?L4 (-2) 2"
  let ?feat = "FeatureFilter \<lparr>filter_name = nm, filter_description = d, filter_merit = mer,
                                has_config = lua_isfunction ?L4 (-1), config_dialog = None,
                                filter_myid = 0\<rparr>"
  have ok: "lua_isfunction ?L1 4"
    using assms by (simp add: lua_isfunction_newtable)
  obtain v where "stack (lua_pushvalue ?L1 4) = stack ?L1 @ [v]"
    using stack_lua_pushvalue by blast
  then have "stack ?L3 = stack ?L1"
    by (simp add: stack_lua_rawseti)
  then have "lua_isfunction ?L3 5 = lua_isfunction ?L1 5"
    by (rule lua_isfunction_stack)
  then have hc: "lua_isfunction ?L4 (-1) = lua_isfunction L 5"
    by (simp add: lua_isfunction_pushvalue_top lua_isfunction_newtable)
  obtain s1 L6 where R: "LuaFeature_RegisterFeature (s, ?L5) ?feat = (s1, L6)"
    by (cases "LuaFeature_RegisterFeature (s, ?L5) ?feat")
  have s1: "s1 = s\<lparr>features := features s @ [set_myid ?feat (size_to_int (length (features s)))]\<rparr>"
    using LuaFeature_RegisterFeature_features [of s ?L5 ?feat] R by simp
  have "LuaFeatureFilter_ctor (s, L) nm d mer = (None, s1, lua_pop L6 1)"
    using ok R by (simp add: LuaFeatureFilter_ctor_def Let_def)
  then show ?thesis
    by (simp add: s1 hc)
qed

lemma call_host_rejects:
  assumes "\<not> lua_isfunction (L\<lparr>stack := args\<rparr>) (processing_argument fn)"
  shows "call_host cf fn args (s, L) =
           (Some (LString (registration_error fn)), s, L\<lparr>heap := heap L @ [[]]\<rparr>)"
proof (cases fn)
  case register_macro
  then show ?thesis
    using assms
    by (simp add: call_host_def LuaFeatureMacro_LuaRegister_def Let_def processing_argument_def
          registration_error_def LuaFeatureMacro_ctor_rejects lua_newtable_def push_def)
next
  case register_filter
  then show ?thesis
    using assms
    by (simp add: call_host_def LuaFeatureFilter_LuaRegister_def Let_def processing_argument_def
          registration_error_def LuaFeatureFilter_ctor_rejects lua_newtable_def push_def)
qed

lemma call_host_accepts:
  assumes "lua_isfunction (L\<lparr>stack := args\<rparr>) (processing_argument fn)"
  shows "\<exists>f L'. call_host cf fn args (s, L) = (None, s\<lparr>features := features s @ [f]\<rparr>, L')"
proof (cases fn)
  case register_macro
  then have "lua_isfunction (L\<lparr>stack := args\<rparr>) 3"
    using assms by (simp add: processing_argument_def)
  from LuaFeatureMacro_ctor_accepts [OF this, of s
      "wxString (lua_tostring cf (L\<lparr>stack := args\<rparr>) 1)"
      "wxString (lua_tostring cf (L\<lparr>stack := args\<rparr>) 2)"]
  show ?thesis
    using register_macro
    by (auto simp: call_host_def LuaFeatureMacro_LuaRegister_def Let_def)
next
  case register_filter
  then have "lua_isfunction (L\<lparr>stack := args\<rparr>) 4"
    using assms by (simp add: processing_argument_def)
  from LuaFeatureFilter_ctor_accepts [OF this, of s
      "wxString (lua_tostring cf (L\<lparr>stack := args\<rparr>) 1)"
      "wxString (lua_tostring cf (L\<lparr>stack := args\<rparr>) 2)"
      "word_of_int (lua_tointeger cf (L\<lparr>stack := args\<rparr>) 3)"]
  show ?thesis
    using register_filter
    by (auto simp: call_host_def LuaFeatureFilter_LuaRegister_def Let_def)
qed

lemma call_host_frame:
  "\<exists>err fs L'. call_host cf fn args (s, L) = (err, s\<lparr>features := fs\<rparr>, L')"
proof (cases "lua_isfunction (L\<lparr>stack := args\<rparr>) (processing_argument fn)")
  case True
  then show ?thesis
    using call_host_accepts [OF True, of cf s] by blast
next
  case False
  have "s = s\<lparr>features := features s\<rparr>" by simp
  then show ?thesis
    using call_host_rejects [OF False, of cf s] by metis
qed

lemma run_chunk_frame:
  "\<exists>err fs L'. run_chunk cf c (s, L) = (err, s\<lparr>features := fs\<rparr>, L')"
proof (induction c arbitrary: s L)
  case Nil
  have "s = s\<lparr>features := features s\<rparr>" by simp
  then show ?case by (metis run_chunk.simps(1))
next
  case (Cons step c)
  show ?case
  proof (cases step)
    case (SetGlobal k v)
    then show ?thesis
      using Cons.IH [of s "L\<lparr>globals := (globals L)(k := v)\<rparr>"] by simp
  next
    case (Error e)
    have "s = s\<lparr>features := features s\<rparr>" by simp
    then show ?thesis
      using Error by (metis run_chunk.simps(3))
  next
    case (Call fn args)
    obtain err fs L1 where H: "call_host cf fn args (s, L) = (err, s\<lparr>features := fs\<rparr>, L1)"
      using call_host_frame by blast
    show ?thesis
    proof (cases err)
      case None
      then show ?thesis
        using Cons.IH [of "s\<lparr>features := fs\<rparr>" L1] Call H by auto
    next
      case (Some e)
      then show ?thesis
        using Call H by auto
    qed
  next
    case (PCall fn args)
    obtain err fs L1 where H: "call_host cf fn args (s, L) = (err, s\<lparr>features := fs\<rparr>, L1)"
      using call_host_frame by blast
    then show ?thesis
      using Cons.IH [of "s\<lparr>features := fs\<rparr>" L1] PCall by auto
  qed
qed

lemma run_chunk_append:
  "run_chunk cf (pre @ post) sL =
     (case run_chunk cf pre sL of
        (Some e, sL1) \<Rightarrow> (Some e, sL1)
      | (None, sL1) \<Rightarrow> run_chunk cf post sL1)"
proof (induction pre arbitrary: sL)
  case Nil
  then show ?case by simp
next
  case (Cons step pre)
  show ?case
  proof (cases step)
    case (Call fn args)
    then show ?thesis
      using Cons.IH by (auto split: prod.splits option.splits)
  next
    case (PCall fn args)
    then show ?thesis
      using Cons.IH by (auto split: prod.splits option.splits)
  qed (use Cons.IH in simp_all)
qed

subsection \<open>Outcomes of a load\<close>


lemma version_check:
  "(lua_isnumber cf (lua_getglobal L ''version'') (-1)
      \<and> lua_tointeger cf (lua_getglobal L ''version'') (-1) = 3) =
   (case luaV_tonumber cf (globals L ''version'') of
      Some q \<Rightarrow> lua_number2integer q = 3
    | None \<Rightarrow> False)"
proof -
  have top: "stack (lua_getglobal L ''version'') = stack L @ [globals L ''version'']"
    by (simp add: lua_getglobal_def push_def)
  show ?thesis
    by (simp add: lua_isnumber_top [OF top] lua_tointeger_top [OF top] split: option.splits)
qed

lemma Create_try_syntax_error:
  "Create_try cf (SyntaxError msg) s =
     (s\<lparr>script_L := Some (lua_pushstring Create_registry msg)\<rparr>,
      Some (ScriptLoadError (''Error loading Lua script '' @ dq @ pretty_filename s @ dq
                               @ '':'' @ nl @ nl @ msg)))"
  by (simp add: Create_try_def Let_def lua_pushstring_def push_def lua_tostring_def
        index2adr_last luaV_tostring_def wxString_def GetPrettyFilename_def)

lemma Create_try_chunk_raises:
  assumes "run_chunk cf c (s, Create_registry) = (Some e, s1, L3)"
  shows "Create_try cf (Chunk c) s =
     (s1\<lparr>script_L := Some (push e L3)\<rparr>,
      Some (ScriptLoadError (''Error initialising Lua script '' @ dq @ pretty_filename s1 @ dq
                               @ '':'' @ nl @ nl @ wxString (luaV_tostring cf e))))"
  using assms
  by (simp add: Create_try_def Let_def push_def lua_tostring_def index2adr_last
        GetPrettyFilename_def)

lemma Create_try_automation3:
  assumes "run_chunk cf c (s, Create_registry) = (None, s1, L3)"
    and "case luaV_tonumber cf (globals L3 ''version'') of
           Some q \<Rightarrow> lua_number2integer q = 3 | None \<Rightarrow> False"
  shows "Create_try cf (Chunk c) s =
     (s1\<lparr>script_L := Some (lua_pop (lua_getglobal L3 ''version'') 1)\<rparr>,
      Some (ScriptLoadError ''Attempted to load an Automation 3 script as an Automation 4 Lua script. Automation 3 is no longer supported.''))"
  using assms version_check [of cf L3]
  by (simp add: Create_try_def Let_def)

lemma Create_try_ready:
  assumes "run_chunk cf c (s, Create_registry) = (None, s1, L3)"
    and "\<not> (case luaV_tonumber cf (globals L3 ''version'') of
           Some q \<Rightarrow> lua_number2integer q = 3 | None \<Rightarrow> False)"
  shows "snd (Create_try cf (Chunk c) s) = None
         \<and> script_L (fst (Create_try cf (Chunk c) s)) \<noteq> None"
  using assms version_check [of cf L3]
  by (simp add: Create_try_def Let_def)

lemma Create_try_fails_iff:
  "(snd (Create_try cf src s) \<noteq> None) =
     (fails_to_parse src \<or> top_level_raises cf src s \<or> declares_automation3 cf src s)"
proof (cases src)
  case (SyntaxError msg)
  then show ?thesis
    by (simp add: Create_try_syntax_error fails_to_parse_def)
next
  case (Chunk c)
  obtain err s1 L3 where R: "run_chunk cf c (s, Create_registry) = (err, s1, L3)"
    by (cases "run_chunk cf c (s, Create_registry)")
  show ?thesis
  proof (cases err)
    case (Some e)
    then show ?thesis
      using Chunk R by (simp add: Create_try_chunk_raises top_level_raises_def)
  next
    case None
    note ok = R [unfolded None]
    let ?v3 = "case luaV_tonumber cf (globals L3 ''version'') of
           Some q \<Rightarrow> lua_number2integer q = 3 | None \<Rightarrow> False"
    have d: "declares_automation3 cf src s = ?v3"
      using Chunk ok
      by (simp add: declares_automation3_def fails_to_parse_def top_level_raises_def
            version_global_def)
    have nr: "\<not> top_level_raises cf src s" "\<not> fails_to_parse src"
      using Chunk ok by (simp_all add: top_level_raises_def fails_to_parse_def)
    show ?thesis
    proof (cases ?v3)
      case True
      then show ?thesis
        using Chunk d Create_try_automation3 [OF ok True] by simp
    next
      case False
      then show ?thesis
        using Chunk d nr Create_try_ready [OF ok False] by auto
    qed
  qed
qed

lemma Create_try_frame:
  assumes "Create_try cf src s = (s1, Some e)"
  shows "\<exists>fs L. s1 = s\<lparr>features := fs, script_L := Some L\<rparr>"
proof (cases src)
  case (SyntaxError msg)
  have "s1 = s\<lparr>script_L := Some (lua_pushstring Create_registry msg)\<rparr>"
    using assms SyntaxError by (simp add: Create_try_syntax_error)
  then have "s1 = s\<lparr>features := features s,
                    script_L := Some (lua_pushstring Create_registry msg)\<rparr>"
    by simp
  then show ?thesis by blast
next
  case (Chunk c)
  obtain err fs L3 where R: "run_chunk cf c (s, Create_registry) = (err, s\<lparr>features := fs\<rparr>, L3)"
    using run_chunk_frame by blast
  show ?thesis
  proof (cases err)
    case (Some e')
    then show ?thesis
      using assms Chunk Create_try_chunk_raises [OF R [unfolded Some]] by auto
  next
    case None
    note ok = R [unfolded None]
    show ?thesis
    proof (cases "case luaV_tonumber cf (globals L3 ''version'') of
           Some q \<Rightarrow> lua_number2integer q = 3 | None \<Rightarrow> False")
      case True
      then show ?thesis
        using assms Chunk Create_try_automation3 [OF ok True] by auto
    next
      case False
      then show ?thesis
        using assms Chunk Create_try_ready [OF ok False] by auto
    qed
  qed
qed

lemma Create_try_message:
  assumes "Create_try cf src s = (s1, Some e)"
  shows "\<exists>msg. e = ScriptLoadError msg"
  by (cases e) simp

lemma Destroy_frame: "\<exists>fs. Destroy s = s\<lparr>features := fs, script_L := None\<rparr>"
proof (cases "script_L s")
  case None
  then have "Destroy s = s\<lparr>features := features s, script_L := None\<rparr>"
    by (simp add: Destroy_def)
  then show ?thesis by blast
next
  case (Some L)
  then show ?thesis
    by (auto simp: Destroy_def)
qed

lemma Create_failure:
  assumes "snd (Create_try cf src (Destroy s)) = Some e"
  shows "Create cf src s =
           s\<lparr>name := pretty_filename s, description := GetChainedMessage e, features := [],
             script_L := None\<rparr>"
proof -
  obtain s1 where T: "Create_try cf src (Destroy s) = (s1, Some e)"
    using assms by (cases "Create_try cf src (Destroy s)") simp
  obtain fs0 where D: "Destroy s = s\<lparr>features := fs0, script_L := None\<rparr>"
    using Destroy_frame by blast
  obtain fs L where "s1 = (Destroy s)\<lparr>features := fs, script_L := Some L\<rparr>"
    using Create_try_frame [OF T] by blast
  then have s1: "s1 = s\<lparr>features := fs, script_L := Some L\<rparr>"
    by (simp add: D)
  have "Create cf src s =
          (let s2 = Destroy s1
           in s2\<lparr>name := GetPrettyFilename s2, description := GetChainedMessage e\<rparr>)"
    by (simp only: Create_def T prod.case option.case)
  then show ?thesis
    by (simp add: s1 Destroy_def Let_def GetPrettyFilename_def)
qed

lemma Create_success:
  assumes "snd (Create_try cf src (Destroy s)) = None"
  shows "script_L (Create cf src s) \<noteq> None"
proof -
  obtain s1 where T: "Create_try cf src (Destroy s) = (s1, None)"
    using assms by (cases "Create_try cf src (Destroy s)") simp
  have "\<not> (fails_to_parse src \<or> top_level_raises cf src (Destroy s)
            \<or> declares_automation3 cf src (Destroy s))"
    using Create_try_fails_iff [of cf src "Destroy s"] assms by simp
  then obtain c where c: "src = Chunk c"
    by (cases src) (simp_all add: fails_to_parse_def)
  obtain err s2 L3 where R: "run_chunk cf c (Destroy s, Create_registry) = (err, s2, L3)"
    by (cases "run_chunk cf c (Destroy s, Create_registry)")
  have "script_L s1 \<noteq> None"
  proof (cases err)
    case (Some e)
    then show ?thesis
      using T c Create_try_chunk_raises [OF R [unfolded Some]] by simp
  next
    case None
    note ok = R [unfolded None]
    show ?thesis
    proof (cases "case luaV_tonumber cf (globals L3 ''version'') of
           Some q \<Rightarrow> lua_number2integer q = 3 | None \<Rightarrow> False")
      case True
      then show ?thesis
        using T c Create_try_automation3 [OF ok True] by simp
    next
      case False
      then show ?thesis
        using T c Create_try_ready [OF ok False] by auto
    qed
  qed
  then show ?thesis
    by (simp add: Create_def T)
qed

subsection \<open>When a load fails\<close>


lemma globals_Create_registry: "globals Create_registry = (\<lambda>k. LNil)"
  by (simp add: Create_registry_def Let_def lua_open_def lua_setfield_REGISTRY_def
        lua_pushlightuserdata_def lua_newtable_def push_def index2adr_last lua_pop_def)

lemma Create_fails_iff:
  "(script_L (Create cf src this) = None) =
     (fails_to_parse src \<or> top_level_raises cf src (Destroy this)
      \<or> declares_automation3 cf src (Destroy this))"
proof (cases "snd (Create_try cf src (Destroy this))")
  case None
  then show ?thesis
    using Create_success [OF None] Create_try_fails_iff [of cf src "Destroy this"] by simp
next
  case (Some e)
  then show ?thesis
    using Create_failure [OF Some] Create_try_fails_iff [of cf src "Destroy this"] by simp
qed

text \<open>
  Claim C3, amended. \<open>Create\<close> ends without a Lua state exactly when the source does not
  parse, or running its top level ends with an error, or the run succeeds and the global
  \<open>version\<close> is a number, or a string that converts to a number, whose conversion to an
  integer by \<open>lua_tointeger\<close> is 3. In each of these cases the exception caught is a
  \<open>ScriptLoadError\<close>, the description is its message, the name is the pretty file name and
  no feature is registered.
\<close>

theorem Create_fails_exactly_when:
  "(script_L (Create cf src this) = None) =
     (fails_to_parse src \<or> top_level_raises cf src (Destroy this)
      \<or> declares_automation3 cf src (Destroy this))
   \<and> (script_L (Create cf src this) = None \<longrightarrow>
        (\<exists>msg. snd (Create_try cf src (Destroy this)) = Some (ScriptLoadError msg)
           \<and> description (Create cf src this) = msg
           \<and> name (Create cf src this) = pretty_filename this
           \<and> features (Create cf src this) = []))"
proof -
  have "\<exists>msg. snd (Create_try cf src (Destroy this)) = Some (ScriptLoadError msg)
           \<and> description (Create cf src this) = msg
           \<and> name (Create cf src this) = pretty_filename this
           \<and> features (Create cf src this) = []"
    if "script_L (Create cf src this) = None"
  proof (cases "snd (Create_try cf src (Destroy this))")
    case None
    then show ?thesis
      using Create_success [OF None] that by simp
  next
    case (Some e)
    obtain msg where e: "e = ScriptLoadError msg"
      by (cases e)
    show ?thesis
      using Some Create_failure [OF Some] by (simp add: e)
  qed
  then show ?thesis
    using Create_fails_iff by blast
qed

lemma lua_number2integer_3_25: "lua_number2integer (13 / 4) = 3"
proof -
  have "\<lfloor>13 / 4 :: rat\<rfloor> = 3"
    by (rule floor_unique) simp_all
  then show ?thesis
    by (simp add: lua_number2integer_def)
qed

lemma version_3_run:
  "run_chunk decimal_conf [SetGlobal ''version'' v] (s, Create_registry) =
     (None, s, Create_registry\<lparr>globals := (\<lambda>k. LNil)(''version'' := v)\<rparr>)"
  by (simp add: globals_Create_registry)

theorem Create_fails_exactly_when_witness:
  "script_L (Create decimal_conf (Chunk [SetGlobal ''version'' (LNumber 3)])
       (new_script ''/a/old.lua'' ''old.lua'')) = None
   \<and> (\<exists>msg. snd (Create_try decimal_conf (Chunk [SetGlobal ''version'' (LNumber 3)])
                  (Destroy (new_script ''/a/old.lua'' ''old.lua''))) = Some (ScriptLoadError msg)
           \<and> description (Create decimal_conf (Chunk [SetGlobal ''version'' (LNumber 3)])
                (new_script ''/a/old.lua'' ''old.lua'')) = msg
           \<and> name (Create decimal_conf (Chunk [SetGlobal ''version'' (LNumber 3)])
                (new_script ''/a/old.lua'' ''old.lua'')) =
               pretty_filename (new_script ''/a/old.lua'' ''old.lua'')
           \<and> features (Create decimal_conf (Chunk [SetGlobal ''version'' (LNumber 3)])
                (new_script ''/a/old.lua'' ''old.lua'')) = [])"
proof -
  let ?src = "Chunk [SetGlobal ''version'' (LNumber 3)]"
  let ?s = "new_script ''/a/old.lua'' ''old.lua''"
  have "declares_automation3 decimal_conf ?src (Destroy ?s)"
    by (simp add: declares_automation3_def fails_to_parse_def top_level_raises_def
          version_global_def version_3_run luaV_tonumber_def lua_number2integer_def)
  then have "script_L (Create decimal_conf ?src ?s) = None"
    using Create_fails_exactly_when [of decimal_conf ?src ?s] by blast
  then show ?thesis
    using Create_fails_exactly_when [of decimal_conf ?src ?s] by blast
qed

text \<open>
  Claim C3 as stated fails: a script whose top level only sets \<open>version = 3.25\<close> parses,
  runs without error and its \<open>version\<close> is not equal to 3, yet \<open>Create\<close> rejects it as an
  Automation 3 script, because \<open>lua_tointeger\<close> converts 3.25 to 3.
\<close>

theorem version_between_3_and_4_is_rejected:
  "script_L (Create decimal_conf (Chunk [SetGlobal ''version'' (LNumber (13 / 4))])
       (new_script ''/a/new.lua'' ''new.lua'')) = None
   \<and> description (Create decimal_conf (Chunk [SetGlobal ''version'' (LNumber (13 / 4))])
       (new_script ''/a/new.lua'' ''new.lua'')) =
       ''Attempted to load an Automation 3 script as an Automation 4 Lua script. Automation 3 is no longer supported.''
   \<and> \<not> fails_to_parse (Chunk [SetGlobal ''version'' (LNumber (13 / 4))])
   \<and> \<not> top_level_raises decimal_conf (Chunk [SetGlobal ''version'' (LNumber (13 / 4))])
         (Destroy (new_script ''/a/new.lua'' ''new.lua''))
   \<and> version_global decimal_conf (Chunk [SetGlobal ''version'' (LNumber (13 / 4))])
         (Destroy (new_script ''/a/new.lua'' ''new.lua'')) = LNumber (13 / 4)
   \<and> LNumber (13 / 4) \<noteq> LNumber 3"
proof -
  let ?c = "[SetGlobal ''version'' (LNumber (13 / 4))]"
  let ?s = "new_script ''/a/new.lua'' ''new.lua''"
  let ?L3 = "Create_registry\<lparr>globals := (\<lambda>k. LNil)(''version'' := LNumber (13 / 4))\<rparr>"
  have run: "run_chunk decimal_conf ?c (Destroy ?s, Create_registry) = (None, Destroy ?s, ?L3)"
    by (rule version_3_run)
  have v: "case luaV_tonumber decimal_conf (globals ?L3 ''version'') of
             Some q \<Rightarrow> lua_number2integer q = 3 | None \<Rightarrow> False"
    by (simp add: luaV_tonumber_def lua_number2integer_3_25)
  have T: "snd (Create_try decimal_conf (Chunk ?c) (Destroy ?s)) =
             Some (ScriptLoadError ''Attempted to load an Automation 3 script as an Automation 4 Lua script. Automation 3 is no longer supported.'')"
    using Create_try_automation3 [OF run v] by simp
  have a: "script_L (Create decimal_conf (Chunk ?c) ?s) = None"
    and b: "description (Create decimal_conf (Chunk ?c) ?s) =
       ''Attempted to load an Automation 3 script as an Automation 4 Lua script. Automation 3 is no longer supported.''"
    using Create_failure [OF T] by simp_all
  have c: "\<not> fails_to_parse (Chunk ?c)"
    by (simp add: fails_to_parse_def)
  have d: "\<not> top_level_raises decimal_conf (Chunk ?c) (Destroy ?s)"
    by (simp add: top_level_raises_def run)
  have e: "version_global decimal_conf (Chunk ?c) (Destroy ?s) = LNumber (13 / 4)"
    by (simp add: version_global_def run)
  have f: "LNumber (13 / 4) \<noteq> LNumber 3"
    by simp
  show ?thesis
    using a b c d e f by (intro conjI)
qed

subsection \<open>After a failed load; failed registrations\<close>


lemma example_loaded_fields:
  "author example_loaded = ''me''" "version example_loaded = ''1.0''"
  "script_L example_loaded \<noteq> None"
  by (simp_all add: example_loaded_def Create_def Create_try_def Destroy_def new_script_def
        Let_def globals_Create_registry lua_getglobal_def push_def lua_isnumber_def
        lua_tointeger_def index2adr_last luaV_tonumber_def get_global_string_def lua_isstring_def
        lua_tostring_def luaV_tostring_def wxString_def GetPrettyFilename_def)

text \<open>
  Claim C9. When \<open>Create\<close> (and so \<open>Reload\<close>) fails on a session, whatever the session held
  before, the result is the old session with four fields changed: the name is the pretty
  file name, the description is the message of the exception, the feature list is empty
  and there is no Lua state. The author and the version are the ones the session had
  before the failed attempt.
\<close>

theorem failed_load_keeps_author_and_version:
  assumes "snd (Create_try cf src (Destroy s)) = Some e"
  shows "author (Create cf src s) = author s \<and> version (Create cf src s) = version s
         \<and> Create cf src s =
             s\<lparr>name := pretty_filename s, description := GetChainedMessage e, features := [],
               script_L := None\<rparr>
         \<and> Reload cf src s = Create cf src s"
  using Create_failure [OF assms] by (simp add: Reload_def)

theorem failed_load_keeps_author_and_version_witness:
  "snd (Create_try decimal_conf (SyntaxError ''unexpected symbol'') (Destroy example_loaded)) =
     Some (ScriptLoadError (''Error loading Lua script '' @ dq
             @ pretty_filename (Destroy example_loaded) @ dq @ '':'' @ nl @ nl
             @ ''unexpected symbol''))
   \<and> author (Create decimal_conf (SyntaxError ''unexpected symbol'') example_loaded) = ''me''
   \<and> version (Create decimal_conf (SyntaxError ''unexpected symbol'') example_loaded) = ''1.0''
   \<and> script_L (Create decimal_conf (SyntaxError ''unexpected symbol'') example_loaded) = None"
proof -
  let ?e = "ScriptLoadError (''Error loading Lua script '' @ dq
             @ pretty_filename (Destroy example_loaded) @ dq @ '':'' @ nl @ nl
             @ ''unexpected symbol'')"
  have h: "snd (Create_try decimal_conf (SyntaxError ''unexpected symbol'')
                  (Destroy example_loaded)) = Some ?e"
    by (simp add: Create_try_syntax_error)
  have "author (Create decimal_conf (SyntaxError ''unexpected symbol'') example_loaded) =
          author example_loaded"
    and "version (Create decimal_conf (SyntaxError ''unexpected symbol'') example_loaded) =
          version example_loaded"
    and "Create decimal_conf (SyntaxError ''unexpected symbol'') example_loaded =
           example_loaded\<lparr>name := pretty_filename example_loaded,
             description := GetChainedMessage ?e, features := [], script_L := None\<rparr>"
    using failed_load_keeps_author_and_version [OF h] by blast+
  then show ?thesis
    using h by (simp add: example_loaded_fields)
qed

text \<open>
  Claim C8, amended. A call of \<open>register_macro\<close> or \<open>register_filter\<close> whose
  processing-function argument is not a function raises a Lua error before anything is
  registered: the session, with its feature list, and the registry of the Lua state are as
  before the call, the only trace being one empty table in the table store. When the
  script makes the call unprotected at its top level, after steps that ran without error,
  the error ends the registration pass and \<open>Create\<close> records it as a \<open>ScriptLoadError\<close>:
  the description is the message, no feature and no Lua state remain.
\<close>

theorem unprotected_bad_registration_fails_load:
  assumes "run_chunk cf pre (Destroy this, Create_registry) = (None, s1, L1)"
    and "\<not> lua_isfunction (L1\<lparr>stack := args\<rparr>) (processing_argument fn)"
  shows "call_host cf fn args (s1, L1) =
           (Some (LString (registration_error fn)), s1, L1\<lparr>heap := heap L1 @ [[]]\<rparr>)
         \<and> Create cf (Chunk (pre @ Call fn args # post)) this =
             this\<lparr>name := pretty_filename this,
                  description := ''Error initialising Lua script '' @ dq @ pretty_filename this
                                   @ dq @ '':'' @ nl @ nl @ registration_error fn,
                  features := [], script_L := None\<rparr>"
proof -
  have rej: "call_host cf fn args (s1, L1) =
           (Some (LString (registration_error fn)), s1, L1\<lparr>heap := heap L1 @ [[]]\<rparr>)"
    using assms(2) by (rule call_host_rejects)
  have run: "run_chunk cf (pre @ Call fn args # post) (Destroy this, Create_registry) =
               (Some (LString (registration_error fn)), s1, L1\<lparr>heap := heap L1 @ [[]]\<rparr>)"
    by (simp add: run_chunk_append assms(1) rej)
  obtain err fs L' where
    "run_chunk cf pre (Destroy this, Create_registry) = (err, (Destroy this)\<lparr>features := fs\<rparr>, L')"
    using run_chunk_frame by blast
  then have "s1 = (Destroy this)\<lparr>features := fs\<rparr>"
    using assms(1) by simp
  moreover obtain fs0 where "Destroy this = this\<lparr>features := fs0, script_L := None\<rparr>"
    using Destroy_frame by blast
  ultimately have p: "pretty_filename s1 = pretty_filename this"
    by simp
  have "snd (Create_try cf (Chunk (pre @ Call fn args # post)) (Destroy this)) =
          Some (ScriptLoadError (''Error initialising Lua script '' @ dq @ pretty_filename this
                                   @ dq @ '':'' @ nl @ nl @ registration_error fn))"
    using Create_try_chunk_raises [OF run] by (simp add: p luaV_tostring_def wxString_def)
  from Create_failure [OF this] rej show ?thesis
    by simp
qed

theorem unprotected_bad_registration_fails_load_witness:
  "run_chunk decimal_conf [SetGlobal ''script_name'' (LString ''Trim'')]
       (Destroy (new_script ''/a/trim.lua'' ''trim.lua''), Create_registry) =
     (None, Destroy (new_script ''/a/trim.lua'' ''trim.lua''),
      Create_registry\<lparr>globals := (globals Create_registry)(''script_name'' := LString ''Trim'')\<rparr>)
   \<and> \<not> lua_isfunction
         (Create_registry\<lparr>globals := (globals Create_registry)(''script_name'' := LString ''Trim''),
                           stack := [LString ''Trim'', LString ''trims'', LNumber 7]\<rparr>)
         (processing_argument register_macro)
   \<and> Create decimal_conf
       (Chunk ([SetGlobal ''script_name'' (LString ''Trim'')]
               @ Call register_macro [LString ''Trim'', LString ''trims'', LNumber 7] # []))
       (new_script ''/a/trim.lua'' ''trim.lua'') =
     (new_script ''/a/trim.lua'' ''trim.lua'')
       \<lparr>name := pretty_filename (new_script ''/a/trim.lua'' ''trim.lua''),
        description := ''Error initialising Lua script '' @ dq
                         @ pretty_filename (new_script ''/a/trim.lua'' ''trim.lua'')
                         @ dq @ '':'' @ nl @ nl @ registration_error register_macro,
        features := [], script_L := None\<rparr>"
proof -
  let ?s = "new_script ''/a/trim.lua'' ''trim.lua''"
  let ?L1 = "Create_registry\<lparr>globals := (globals Create_registry)(''script_name'' := LString ''Trim'')\<rparr>"
  have a: "run_chunk decimal_conf [SetGlobal ''script_name'' (LString ''Trim'')]
             (Destroy ?s, Create_registry) = (None, Destroy ?s, ?L1)"
    by simp
  have b: "\<not> lua_isfunction (?L1\<lparr>stack := [LString ''Trim'', LString ''trims'', LNumber 7]\<rparr>)
             (processing_argument register_macro)"
    by (simp add: lua_isfunction_def index2adr_def processing_argument_def ttisfunction_def)
  show ?thesis
    using a b unprotected_bad_registration_fails_load [OF a b, of "[]"] by simp
qed

text \<open>
  Claim C8 as stated fails: the script calls \<open>register_macro\<close> with \<open>nil\<close> as processing
  function inside a protected call. The registration raises its error, the script catches
  it, the registration pass runs to its end and \<open>Create\<close> succeeds: no exception is thrown
  and the session keeps a live Lua state.
\<close>

theorem protected_bad_registration_does_not_fail_load:
  "\<not> lua_isfunction (Create_registry\<lparr>stack := [LString ''a'', LString ''b'', LNil]\<rparr>)
       (processing_argument register_macro)
   \<and> fst (call_host decimal_conf register_macro [LString ''a'', LString ''b'', LNil]
            (Destroy (new_script ''/a/trim.lua'' ''trim.lua''), Create_registry)) =
       Some (LString ''The macro processing function must be a function'')
   \<and> snd (Create_try decimal_conf (Chunk [PCall register_macro [LString ''a'', LString ''b'', LNil]])
            (Destroy (new_script ''/a/trim.lua'' ''trim.lua''))) = None
   \<and> script_L (Create decimal_conf
                  (Chunk [PCall register_macro [LString ''a'', LString ''b'', LNil]])
                  (new_script ''/a/trim.lua'' ''trim.lua'')) \<noteq> None"
proof -
  let ?s = "new_script ''/a/trim.lua'' ''trim.lua''"
  let ?args = "[LString ''a'', LString ''b'', LNil]"
  let ?src = "Chunk [PCall register_macro ?args]"
  have b: "\<not> lua_isfunction (Create_registry\<lparr>stack := ?args\<rparr>) (processing_argument register_macro)"
    by (simp add: lua_isfunction_def index2adr_def processing_argument_def ttisfunction_def)
  have rej: "call_host decimal_conf register_macro ?args (Destroy ?s, Create_registry) =
           (Some (LString (registration_error register_macro)), Destroy ?s,
            Create_registry\<lparr>heap := heap Create_registry @ [[]]\<rparr>)"
    using b by (rule call_host_rejects)
  have run: "run_chunk decimal_conf [PCall register_macro ?args] (Destroy ?s, Create_registry) =
               (None, Destroy ?s, Create_registry\<lparr>heap := heap Create_registry @ [[]]\<rparr>)"
    by (simp add: rej)
  have "\<not> (fails_to_parse ?src \<or> top_level_raises decimal_conf ?src (Destroy ?s)
            \<or> declares_automation3 decimal_conf ?src (Destroy ?s))"
    by (simp add: fails_to_parse_def top_level_raises_def declares_automation3_def
          version_global_def rej globals_Create_registry luaV_tonumber_def)
  then have T: "snd (Create_try decimal_conf ?src (Destroy ?s)) = None"
    using Create_try_fails_iff [of decimal_conf ?src "Destroy ?s"] by simp
  have "script_L (Create decimal_conf ?src ?s) \<noteq> None"
    using T by (rule Create_success)
  then show ?thesis
    using b T by (simp add: rej registration_error_def)
qed

subsection \<open>The example script\<close>


lemma example_state_reached:
  "features (Create decimal_conf example_script (new_script ''/a/trim.lua'' ''trim.lua'')) =
     [FeatureMacro example_macro, FeatureFilter example_filter]
   \<and> (case script_L (Create decimal_conf example_script (new_script ''/a/trim.lua'' ''trim.lua'')) of
        None \<Rightarrow> False
      | Some L \<Rightarrow>
          stack L = stack example_state \<and> heap L = heap example_state
          \<and> registry L ''features'' = registry example_state ''features''
          \<and> registry L ''aegisub'' = registry example_state ''aegisub''
          \<and> globals L ''version'' = globals example_state ''version''
          \<and> calls L = calls example_state \<and> api_violation L = api_violation example_state)"
  by code_simp

subsection \<open>A registered function is found again\<close>

lemma rawget_Nil: "rawget [] k = LNil"
  by (simp add: rawget_def)

lemma lua_rawgeti_top_value:
  assumes "stack L = st @ [t]"
  shows "stack (lua_rawgeti L (-1) n) =
           st @ [t, case t of LTable a \<Rightarrow> rawget (deref (heap L) a) (LNumber (of_int n)) | _ \<Rightarrow> LNil]"
    and "heap (lua_rawgeti L (-1) n) = heap L"
    and "registry (lua_rawgeti L (-1) n) = registry L"
  using assms index2adr_top [OF assms]
  by (cases t; simp add: lua_rawgeti_def push_def deref_def rawget_Nil)+

lemma GetFeatureFunction_stack:
  "stack (GetFeatureFunction L i k) = stack L @ [feature_function L i k]"
proof -
  let ?r = "registry L ''features''"
  let ?L1 = "lua_getfield_REGISTRY L ''features''"
  have s1: "stack ?L1 = stack L @ [?r]" and h1: "heap ?L1 = heap L"
    by (simp_all add: lua_getfield_REGISTRY_def push_def)
  let ?v2 = "case ?r of LTable a \<Rightarrow> rawget (deref (heap L) a) (LNumber (of_int i)) | _ \<Rightarrow> LNil"
  let ?L2 = "lua_rawgeti ?L1 (-1) i"
  have s2: "stack ?L2 = (stack L @ [?r]) @ [?v2]" and h2: "heap ?L2 = heap L"
    using lua_rawgeti_top_value [OF s1, of i] unfolding h1 by simp_all
  let ?v3 = "case ?v2 of LTable b \<Rightarrow> rawget (deref (heap L) b) (LNumber (of_int k)) | _ \<Rightarrow> LNil"
  let ?L3 = "lua_rawgeti ?L2 (-1) k"
  have s3: "stack ?L3 = (stack L @ [?r]) @ [?v2, ?v3]"
    using lua_rawgeti_top_value(1) [OF s2, of k] unfolding h2 by simp
  have s4: "stack (lua_remove ?L3 (-2)) = stack L @ [?r, ?v3]"
    using lua_remove_second [OF s3] by simp
  have s5: "stack (lua_remove (lua_remove ?L3 (-2)) (-2)) = stack L @ [?v3]"
    using lua_remove_second [OF s4] by simp
  have "?v3 = feature_function L i k"
    by (simp add: feature_function_def split: lua_value.splits)
  then show ?thesis
    using s5 by (simp add: GetFeatureFunction_def)
qed

lemma lua_rawseti_second:
  assumes "stack L = st @ [LTable a, v]" and "a < length (heap L)"
  shows "lua_rawseti L (-2) n =
           L\<lparr>stack := st @ [LTable a],
             heap := (heap L)[a := rawset (heap L ! a) (LNumber (of_int n)) v]\<rparr>"
proof -
  have "index2adr L (-2) = Some (LTable a)"
    using assms(1) by (rule index2adr_second)
  moreover have "index2adr L (-1) = Some v"
    using assms(1) by (intro index2adr_top [where st = "st @ [LTable a]"]) simp
  ultimately show ?thesis
    using assms by (simp add: lua_rawseti_def lua_pop_def)
qed

lemma index2adr_stack: "stack L = stack L' \<Longrightarrow> index2adr L i = index2adr L' i"
  by (simp add: index2adr_def Let_def)

lemma index2adr_append:
  assumes "index2adr L i = Some v" and "0 < i" and "stack L' = stack L @ vs"
  shows "index2adr L' i = Some v"
proof -
  have "nat i \<le> length (stack L)" and "v = stack L ! (nat i - 1)"
    using assms(1,2) by (auto simp: index2adr_def Let_def split: if_splits)
  moreover have "nat i - 1 < length (stack L)"
    using assms(2) calculation(1) by linarith
  ultimately show ?thesis
    using assms(2,3) by (simp add: index2adr_def Let_def nth_append)
qed

lemma LuaFeature_RegisterFeature_state:
  assumes st: "stack L = st @ [tv]"
    and reg: "registry L ''features'' = LTable a" and a: "a < length (heap L)"
  shows "LuaFeature_RegisterFeature (s, L) this =
           (s\<lparr>features := features s @ [set_myid this (size_to_int (length (features s)))]\<rparr>,
            L\<lparr>heap := (heap L)[a := rawset (heap L ! a)
                                     (LNumber (of_int (size_to_int (length (features s))))) tv]\<rparr>)"
proof -
  let ?id = "size_to_int (length (features s))"
  have p: "lua_pop (lua_getfield_REGISTRY L ''aegisub'') 1 = L"
    by (simp add: lua_getfield_REGISTRY_def push_def lua_pop_def)
  let ?L4 = "L\<lparr>stack := (st @ [tv]) @ [LTable a, tv]\<rparr>"
  have L4: "lua_pushvalue (lua_getfield_REGISTRY L ''features'') (-2) = ?L4"
  proof -
    have "stack (lua_getfield_REGISTRY L ''features'') = st @ [tv, LTable a]"
      using st reg by (simp add: lua_getfield_REGISTRY_def push_def)
    then have "index2adr (lua_getfield_REGISTRY L ''features'') (-2) = Some tv"
      by (rule index2adr_second)
    then show ?thesis
      using st reg by (simp add: lua_pushvalue_def lua_getfield_REGISTRY_def push_def)
  qed
  have L5: "lua_rawseti ?L4 (-2) ?id =
              ?L4\<lparr>stack := (st @ [tv]) @ [LTable a],
                   heap := (heap ?L4)[a := rawset (heap ?L4 ! a) (LNumber (of_int ?id)) tv]\<rparr>"
    using a by (intro lua_rawseti_second) simp_all
  have f: "fst (LuaFeature_RegisterFeature (s, L) this) =
             s\<lparr>features := features s @ [set_myid this ?id]\<rparr>"
    by (rule LuaFeature_RegisterFeature_features)
  have "snd (LuaFeature_RegisterFeature (s, L) this) =
          L\<lparr>heap := (heap L)[a := rawset (heap L ! a) (LNumber (of_int ?id)) tv]\<rparr>"
    using st
    by (simp only: LuaFeature_RegisterFeature_def LuaScript_RegisterFeature_index Let_def
          prod.case snd_conv p L4 L5)
       (simp add: lua_pop_def)
  then show ?thesis
    using f by (simp add: prod_eq_iff)
qed

lemma LuaFeatureMacro_ctor_state:
  assumes fn: "index2adr L 3 = Some (LFunction f)"
    and reg: "registry L ''features'' = LTable a" and a: "a < length (heap L)"
  shows "LuaFeatureMacro_ctor (s, L) nm d =
           (None,
            s\<lparr>features := features s @
               [FeatureMacro \<lparr>macro_name = nm, macro_description = d,
                               no_validate = (\<not> lua_isfunction L 4),
                               macro_myid = size_to_int (length (features s))\<rparr>]\<rparr>,
            L\<lparr>heap := (heap L @ [rawset [(LNumber 1, LFunction f)] (LNumber 2)
                                       (value_at (lua_newtable L) 4)])
                          [a := rawset (heap L ! a) (LNumber (of_int (size_to_int (length (features s)))))
                                  (LTable (length (heap L)))]\<rparr>)"
proof -
  let ?n = "length (heap L)"
  let ?L1 = "L\<lparr>stack := stack L @ [LTable ?n], heap := heap L @ [[]]\<rparr>"
  have L1: "lua_newtable L = ?L1"
    by (simp add: lua_newtable_def push_def)
  have i3: "index2adr ?L1 3 = Some (LFunction f)"
    using fn by (rule index2adr_append) simp_all
  have isf: "lua_isfunction ?L1 3"
    by (simp add: lua_isfunction_def i3 ttisfunction_def)
  let ?L2 = "L\<lparr>stack := stack L @ [LTable ?n, LFunction f], heap := heap L @ [[]]\<rparr>"
  have L2: "lua_pushvalue ?L1 3 = ?L2"
    by (simp add: lua_pushvalue_def i3 push_def)
  let ?L3 = "L\<lparr>stack := stack L @ [LTable ?n], heap := heap L @ [[(LNumber 1, LFunction f)]]\<rparr>"
  have L3: "lua_rawseti ?L2 (-2) 1 = ?L3"
    using lua_rawseti_second [of ?L2 "stack L" ?n "LFunction f" 1] by simp
  let ?v4 = "value_at ?L1 4"
  have "index2adr ?L3 4 = index2adr ?L1 4"
    by (rule index2adr_stack) simp
  then have v4: "(case index2adr ?L3 4 of Some v \<Rightarrow> v | None \<Rightarrow> LNil) = ?v4"
    by (simp add: value_at_def)
  let ?L4 = "L\<lparr>stack := stack L @ [LTable ?n, ?v4], heap := heap L @ [[(LNumber 1, LFunction f)]]\<rparr>"
  have L4: "lua_pushvalue ?L3 4 = ?L4"
    by (simp only: lua_pushvalue_def v4) (simp add: push_def)
  have nv: "lua_isfunction ?L4 (-1) = lua_isfunction L 4"
  proof -
    have "lua_isfunction (lua_pushvalue ?L3 4) (-1) = lua_isfunction ?L3 4"
      by (rule lua_isfunction_pushvalue_top)
    also have "\<dots> = lua_isfunction (lua_newtable L) 4"
      by (rule lua_isfunction_stack) (simp add: L1)
    also have "\<dots> = lua_isfunction L 4"
      by (simp add: lua_isfunction_newtable)
    finally show ?thesis
      by (simp only: L4)
  qed
  let ?tbl = "rawset [(LNumber 1, LFunction f)] (LNumber 2) ?v4"
  let ?L5 = "L\<lparr>stack := stack L @ [LTable ?n], heap := heap L @ [?tbl]\<rparr>"
  have L5: "lua_rawseti ?L4 (-2) 2 = ?L5"
    using lua_rawseti_second [of ?L4 "stack L" ?n ?v4 2] by simp
  let ?feat = "FeatureMacro \<lparr>macro_name = nm, macro_description = d,
                              no_validate = (\<not> lua_isfunction L 4), macro_myid = 0\<rparr>"
  have R: "LuaFeature_RegisterFeature (s, ?L5) ?feat =
             (s\<lparr>features := features s @ [set_myid ?feat (size_to_int (length (features s)))]\<rparr>,
              ?L5\<lparr>heap := (heap ?L5)[a := rawset (heap ?L5 ! a)
                             (LNumber (of_int (size_to_int (length (features s))))) (LTable ?n)]\<rparr>)"
    using reg a by (intro LuaFeature_RegisterFeature_state [where st = "stack L"]) simp_all
  show ?thesis
    unfolding LuaFeatureMacro_ctor_def prod.case Let_def L1
    using isf a
    by (simp only: if_not_P not_not L2 L3 L4 L5 nv R prod.case)
       (simp add: lua_pop_def nth_append)
qed

lemma rawget_rawset_same: "v \<noteq> LNil \<Longrightarrow> rawget (rawset t k v) k = v"
  by (induction t) (auto simp: rawget_def)

lemma rawget_rawset_other: "k' \<noteq> k \<Longrightarrow> rawget (rawset t k v) k' = rawget t k'"
  by (induction t) (auto simp: rawget_def)

lemma feature_function_lookup:
  assumes "registry L ''features'' = LTable a"
    and "rawget (deref (heap L) a) (LNumber (of_int i)) = LTable b"
    and "rawget (deref (heap L) b) (LNumber (of_int k)) = v"
  shows "feature_function L i k = v"
  by (simp add: feature_function_def assms)

text \<open>
  Registration and lookup fit together: after \<open>register_macro\<close> was called with a function
  as third argument, on a state whose registry holds the table \<^verbatim>\<open>features\<close>, the macro is
  the last feature of the script object, and \<open>GetFeatureFunction\<close> with its index and
  function number 1 pushes that function, whatever the stack holds.
\<close>

lemma registered_macro_is_found:
  assumes fn: "index2adr L 3 = Some (LFunction f)"
    and reg: "registry L ''features'' = LTable a" and a: "a < length (heap L)"
  shows "\<exists>m L'. LuaFeatureMacro_ctor (s, L) nm d =
                   (None, s\<lparr>features := features s @ [FeatureMacro m]\<rparr>, L')
           \<and> macro_myid m = size_to_int (length (features s))
           \<and> registry L' ''features'' = LTable a \<and> a < length (heap L')
           \<and> (\<forall>st. stack (GetFeatureFunction (L'\<lparr>stack := st\<rparr>) (macro_myid m) 1) =
                      st @ [LFunction f])"
proof -
  let ?n = "length (heap L)"
  let ?id = "size_to_int (length (features s))"
  let ?tbl = "rawset [(LNumber 1, LFunction f)] (LNumber 2) (value_at (lua_newtable L) 4)"
  let ?H = "(heap L @ [?tbl])[a := rawset (heap L ! a) (LNumber (of_int ?id)) (LTable ?n)]"
  let ?m = "\<lparr>macro_name = nm, macro_description = d, no_validate = (\<not> lua_isfunction L 4),
             macro_myid = ?id\<rparr>"
  have C: "LuaFeatureMacro_ctor (s, L) nm d =
             (None, s\<lparr>features := features s @ [FeatureMacro ?m]\<rparr>, L\<lparr>heap := ?H\<rparr>)"
    using LuaFeatureMacro_ctor_state [OF fn reg a] by simp
  have da: "deref ?H a = rawset (heap L ! a) (LNumber (of_int ?id)) (LTable ?n)"
    using a by (simp add: deref_def)
  have dn: "deref ?H ?n = ?tbl"
    using a by (simp add: deref_def)
  have one: "rawget ?tbl (LNumber 1) = LFunction f"
    by (simp add: rawget_rawset_other) (simp add: rawget_def)
  have g1: "rawget (rawset (heap L ! a) (LNumber (of_int ?id)) (LTable ?n)) (LNumber (of_int ?id)) =
              LTable ?n"
    by (rule rawget_rawset_same) simp
  have ff: "feature_function (L\<lparr>heap := ?H, stack := st\<rparr>) ?id 1 = LFunction f" for st
  proof (rule feature_function_lookup)
    have hX: "heap (L\<lparr>heap := ?H, stack := st\<rparr>) = ?H"
      by simp
    show "registry (L\<lparr>heap := ?H, stack := st\<rparr>) ''features'' = LTable a"
      by (simp add: reg)
    show "rawget (deref (heap (L\<lparr>heap := ?H, stack := st\<rparr>)) a) (LNumber (of_int ?id)) =
            LTable ?n"
      by (simp only: hX da g1)
    have "rawget (deref ?H ?n) (LNumber 1) = LFunction f"
      by (simp only: dn one)
    then show "rawget (deref (heap (L\<lparr>heap := ?H, stack := st\<rparr>)) ?n) (LNumber (of_int 1)) =
            LFunction f"
      by (simp only: hX of_int_1)
  qed
  have "stack (GetFeatureFunction (L\<lparr>heap := ?H\<rparr>\<lparr>stack := st\<rparr>) (macro_myid ?m) 1) =
          st @ [LFunction f]" for st
    using ff [of st] by (simp add: GetFeatureFunction_stack)
  moreover have "registry (L\<lparr>heap := ?H\<rparr>) ''features'' = LTable a"
    and "a < length (heap (L\<lparr>heap := ?H\<rparr>))"
    using reg a by simp_all
  ultimately show ?thesis
    using C by (intro exI [of _ ?m] exI [of _ "L\<lparr>heap := ?H\<rparr>"]) simp
qed

subsection \<open>Registrations of a load, and their lookup\<close>

lemma LuaFeatureFilter_ctor_state:
  assumes fn: "index2adr L 4 = Some (LFunction f)"
    and reg: "registry L ''features'' = LTable a" and a: "a < length (heap L)"
  shows "LuaFeatureFilter_ctor (s, L) nm d mer =
           (None,
            s\<lparr>features := features s @
               [FeatureFilter \<lparr>filter_name = nm, filter_description = d, filter_merit = mer,
                                has_config = lua_isfunction L 5, config_dialog = None,
                                filter_myid = size_to_int (length (features s))\<rparr>]\<rparr>,
            L\<lparr>heap := (heap L @ [rawset [(LNumber 1, LFunction f)] (LNumber 2)
                                       (value_at (lua_newtable L) 5)])
                          [a := rawset (heap L ! a) (LNumber (of_int (size_to_int (length (features s)))))
                                  (LTable (length (heap L)))]\<rparr>)"
proof -
  let ?n = "length (heap L)"
  let ?L1 = "L\<lparr>stack := stack L @ [LTable ?n], heap := heap L @ [[]]\<rparr>"
  have L1: "lua_newtable L = ?L1"
    by (simp add: lua_newtable_def push_def)
  have i4: "index2adr ?L1 4 = Some (LFunction f)"
    using fn by (rule index2adr_append) simp_all
  have isf: "lua_isfunction ?L1 4"
    by (simp add: lua_isfunction_def i4 ttisfunction_def)
  let ?L2 = "L\<lparr>stack := stack L @ [LTable ?n, LFunction f], heap := heap L @ [[]]\<rparr>"
  have L2: "lua_pushvalue ?L1 4 = ?L2"
    by (simp add: lua_pushvalue_def i4 push_def)
  let ?L3 = "L\<lparr>stack := stack L @ [LTable ?n], heap := heap L @ [[(LNumber 1, LFunction f)]]\<rparr>"
  have L3: "lua_rawseti ?L2 (-2) 1 = ?L3"
    using lua_rawseti_second [of ?L2 "stack L" ?n "LFunction f" 1] by simp
  let ?v5 = "value_at ?L1 5"
  have "index2adr ?L3 5 = index2adr ?L1 5"
    by (rule index2adr_stack) simp
  then have v5: "(case index2adr ?L3 5 of Some v \<Rightarrow> v | None \<Rightarrow> LNil) = ?v5"
    by (simp add: value_at_def)
  let ?L4 = "L\<lparr>stack := stack L @ [LTable ?n, ?v5], heap := heap L @ [[(LNumber 1, LFunction f)]]\<rparr>"
  have L4: "lua_pushvalue ?L3 5 = ?L4"
    by (simp only: lua_pushvalue_def v5) (simp add: push_def)
  have hc: "lua_isfunction ?L4 (-1) = lua_isfunction L 5"
  proof -
    have "lua_isfunction (lua_pushvalue ?L3 5) (-1) = lua_isfunction ?L3 5"
      by (rule lua_isfunction_pushvalue_top)
    also have "\<dots> = lua_isfunction (lua_newtable L) 5"
      by (rule lua_isfunction_stack) (simp add: L1)
    also have "\<dots> = lua_isfunction L 5"
      by (simp add: lua_isfunction_newtable)
    finally show ?thesis
      by (simp only: L4)
  qed
  let ?tbl = "rawset [(LNumber 1, LFunction f)] (LNumber 2) ?v5"
  let ?L5 = "L\<lparr>stack := stack L @ [LTable ?n], heap := heap L @ [?tbl]\<rparr>"
  have L5: "lua_rawseti ?L4 (-2) 2 = ?L5"
    using lua_rawseti_second [of ?L4 "stack L" ?n ?v5 2] by simp
  let ?feat = "FeatureFilter \<lparr>filter_name = nm, filter_description = d, filter_merit = mer,
                               has_config = lua_isfunction L 5, config_dialog = None,
                               filter_myid = 0\<rparr>"
  have R: "LuaFeature_RegisterFeature (s, ?L5) ?feat =
             (s\<lparr>features := features s @ [set_myid ?feat (size_to_int (length (features s)))]\<rparr>,
              ?L5\<lparr>heap := (heap ?L5)[a := rawset (heap ?L5 ! a)
                             (LNumber (of_int (size_to_int (length (features s))))) (LTable ?n)]\<rparr>)"
    using reg a by (intro LuaFeature_RegisterFeature_state [where st = "stack L"]) simp_all
  show ?thesis
    unfolding LuaFeatureFilter_ctor_def prod.case Let_def L1
    using isf a
    by (simp only: if_not_P not_not L2 L3 L4 L5 hc R prod.case)
       (simp add: lua_pop_def nth_append)
qed

lemma lua_tostring_stack: "stack L = stack L' \<Longrightarrow> lua_tostring cf L i = lua_tostring cf L' i"
  by (simp add: lua_tostring_def index2adr_stack [of L L'])

lemma lua_tointeger_stack: "stack L = stack L' \<Longrightarrow> lua_tointeger cf L i = lua_tointeger cf L' i"
  by (simp add: lua_tointeger_def index2adr_stack [of L L'])

lemma accepted_function:
  assumes "accepted (fn, args)"
  shows "\<exists>f. index2adr (L\<lparr>stack := args\<rparr>) (processing_argument fn) = Some (LFunction f)
             \<and> processing_function (fn, args) = LFunction f"
proof -
  have e: "index2adr (L\<lparr>stack := args\<rparr>) (processing_argument fn) =
           index2adr (call_frame args) (processing_argument fn)"
    by (rule index2adr_stack) (simp add: call_frame_def)
  show ?thesis
    using assms unfolding e
    by (auto simp: accepted_def processing_function_def lua_isfunction_def value_at_def
          ttisfunction_def split: option.splits lua_value.splits)
qed

text \<open>
  One accepted registration: the feature is appended with the next index, a new table
  that holds the processing function as entry 1 is added to the store, and the registry
  table files it under that index.
\<close>

lemma call_host_state:
  assumes acc: "accepted (fn, args)"
    and reg: "registry L ''features'' = LTable a" and a: "a < length (heap L)"
  shows "\<exists>tbl. call_host cf fn args (s, L) =
           (None,
            s\<lparr>features := features s @
               [registered_feature cf (fn, args) (size_to_int (length (features s)))]\<rparr>,
            L\<lparr>heap := (heap L @ [tbl])
                          [a := rawset (heap L ! a)
                                  (LNumber (of_int (size_to_int (length (features s)))))
                                  (LTable (length (heap L)))]\<rparr>)
         \<and> rawget tbl (LNumber 1) = processing_function (fn, args)"
proof -
  let ?F = "L\<lparr>stack := args\<rparr>"
  obtain f where f: "index2adr ?F (processing_argument fn) = Some (LFunction f)"
    and pf: "processing_function (fn, args) = LFunction f"
    using accepted_function [OF acc] by blast
  have st: "stack ?F = stack (call_frame args)"
    by (simp add: call_frame_def)
  have regF: "registry ?F ''features'' = LTable a" and aF: "a < length (heap ?F)"
    using reg a by simp_all
  have one: "rawget (rawset [(LNumber 1, LFunction f)] (LNumber 2) v) (LNumber 1) = LFunction f" for v
    by (simp add: rawget_rawset_other) (simp add: rawget_def)
  show ?thesis
  proof (cases fn)
    case register_macro
    then have f3: "index2adr ?F 3 = Some (LFunction f)"
      using f by (simp add: processing_argument_def)
    let ?tbl = "rawset [(LNumber 1, LFunction f)] (LNumber 2) (value_at (lua_newtable ?F) 4)"
    have "call_host cf fn args (s, L) =
           (None,
            s\<lparr>features := features s @
               [registered_feature cf (fn, args) (size_to_int (length (features s)))]\<rparr>,
            L\<lparr>heap := (heap L @ [?tbl])
                          [a := rawset (heap L ! a)
                                  (LNumber (of_int (size_to_int (length (features s)))))
                                  (LTable (length (heap L)))]\<rparr>)"
      using register_macro
      by (simp add: call_host_def LuaFeatureMacro_LuaRegister_def Let_def
            LuaFeatureMacro_ctor_state [OF f3 regF aF] registered_feature_def
            lua_tostring_stack [OF st] lua_isfunction_stack [OF st])
    then show ?thesis
      using one pf by (intro exI [of _ ?tbl]) simp
  next
    case register_filter
    then have f4: "index2adr ?F 4 = Some (LFunction f)"
      using f by (simp add: processing_argument_def)
    let ?tbl = "rawset [(LNumber 1, LFunction f)] (LNumber 2) (value_at (lua_newtable ?F) 5)"
    have "call_host cf fn args (s, L) =
           (None,
            s\<lparr>features := features s @
               [registered_feature cf (fn, args) (size_to_int (length (features s)))]\<rparr>,
            L\<lparr>heap := (heap L @ [?tbl])
                          [a := rawset (heap L ! a)
                                  (LNumber (of_int (size_to_int (length (features s)))))
                                  (LTable (length (heap L)))]\<rparr>)"
      using register_filter
      by (simp add: call_host_def LuaFeatureFilter_LuaRegister_def Let_def
            LuaFeatureFilter_ctor_state [OF f4 regF aF] registered_feature_def
            lua_tostring_stack [OF st] lua_isfunction_stack [OF st] lua_tointeger_stack [OF st])
    then show ?thesis
      using one pf by (intro exI [of _ ?tbl]) simp
  qed
qed

lemma registry_files_iff:
  "registry_files L regs =
     (\<exists>a. registry L ''features'' = LTable a \<and> a < length (heap L)
          \<and> (\<forall>j < length regs. \<exists>b.
                rawget (heap L ! a) (LNumber (of_nat j)) = LTable b
                \<and> b < length (heap L) \<and> b \<noteq> a
                \<and> rawget (heap L ! b) (LNumber 1) = processing_function (regs ! j)))"
proof (cases "registry L ''features''")
  case (LTable a)
  have inner: "(case v of LTable b \<Rightarrow> P b | _ \<Rightarrow> False) = (\<exists>b. v = LTable b \<and> P b)"
    for v :: lua_value and P
    by (cases v) auto
  show ?thesis
    by (simp add: registry_files_def LTable inner)
qed (simp_all add: registry_files_def)

lemma registry_files_step:
  assumes files: "registry_files L done"
    and reg: "registry L ''features'' = LTable a"
    and tbl: "rawget tbl (LNumber 1) = processing_function r"
  shows "registry_files
           (L\<lparr>heap := (heap L @ [tbl])
                         [a := rawset (heap L ! a) (LNumber (of_nat (length done)))
                                 (LTable (length (heap L)))]\<rparr>)
           (done @ [r])"
proof -
  let ?n = "length (heap L)"
  let ?k = "length done"
  let ?H = "(heap L @ [tbl])[a := rawset (heap L ! a) (LNumber (of_nat ?k)) (LTable ?n)]"
  from files reg have a: "a < ?n"
    and old: "\<And>j. j < ?k \<Longrightarrow> \<exists>b. rawget (heap L ! a) (LNumber (of_nat j)) = LTable b
                \<and> b < ?n \<and> b \<noteq> a
                \<and> rawget (heap L ! b) (LNumber 1) = processing_function (done ! j)"
    by (auto simp: registry_files_iff)
  have Ha: "?H ! a = rawset (heap L ! a) (LNumber (of_nat ?k)) (LTable ?n)"
    using a by simp
  have Hn: "?H ! ?n = tbl"
    using a by simp
  have Hb: "?H ! b = heap L ! b" if "b < ?n" "b \<noteq> a" for b
    using that by (simp add: nth_append)
  have "\<exists>b. rawget (?H ! a) (LNumber (of_nat j)) = LTable b \<and> b < length ?H \<and> b \<noteq> a
            \<and> rawget (?H ! b) (LNumber 1) = processing_function ((done @ [r]) ! j)"
    if j: "j < length (done @ [r])" for j
  proof (cases "j < ?k")
    case True
    obtain b where b: "rawget (heap L ! a) (LNumber (of_nat j)) = LTable b" "b < ?n" "b \<noteq> a"
        "rawget (heap L ! b) (LNumber 1) = processing_function (done ! j)"
      using old [OF True] by blast
    have "LNumber (of_nat j) \<noteq> LNumber (of_nat ?k)"
      using True by simp
    then have "rawget (?H ! a) (LNumber (of_nat j)) = LTable b"
      unfolding Ha using b(1) by (simp add: rawget_rawset_other)
    moreover have "rawget (?H ! b) (LNumber 1) = processing_function ((done @ [r]) ! j)"
      using b True by (simp only: Hb [OF b(2,3)]) (simp add: nth_append)
    moreover have "b < length ?H"
      using b(2) by simp
    ultimately show ?thesis
      using b(3) by blast
  next
    case False
    then have jk: "j = ?k"
      using j by simp
    have "rawget (?H ! a) (LNumber (of_nat j)) = LTable ?n"
      unfolding jk Ha by (rule rawget_rawset_same) simp
    moreover have "rawget (?H ! ?n) (LNumber 1) = processing_function ((done @ [r]) ! j)"
      unfolding Hn jk by (simp add: tbl)
    moreover have "?n < length ?H" and "?n \<noteq> a"
      using a by simp_all
    ultimately show ?thesis
      by blast
  qed
  moreover have "a < length ?H"
    using a by simp
  ultimately show ?thesis
    using reg by (simp only: registry_files_iff) (intro exI [of _ a], simp)
qed

lemma upt_zip_Cons:
  "zip [k..<k + Suc n] (r # rs) = (k, r) # zip [Suc k..<Suc k + n] rs"
proof -
  have "[k..<k + Suc n] = k # [Suc k..<k + Suc n]"
    by (rule upt_conv_Cons) simp
  then show ?thesis
    by simp
qed

text \<open>
  A top level that makes accepted registrations, on a state whose registry files the
  registrations \<open>done\<close> made before: it ends normally, the features are appended with the
  indices that follow, and the registry files them all.
\<close>

lemma run_registration_calls:
  assumes "\<forall>r \<in> set regs. accepted r"
    and "registry_files L done"
    and "length (features s) = length done"
    and "length done + length regs \<le> 2 ^ 31"
  shows "\<exists>L'. run_chunk cf (registration_calls regs) (s, L) =
           (None,
            s\<lparr>features := features s @
               map (\<lambda>(j, r). registered_feature cf r (int j))
                 (zip [length done..<length done + length regs] regs)\<rparr>,
            L')
         \<and> registry_files L' (done @ regs)
         \<and> stack L' = stack L \<and> globals L' = globals L"
  using assms
proof (induction regs arbitrary: s L "done")
  case Nil
  then show ?case
    by (simp add: registration_calls_def)
next
  case (Cons r regs)
  obtain fn args where r: "r = (fn, args)"
    by (cases r)
  let ?k = "length done"
  have acc: "accepted (fn, args)"
    using Cons.prems(1) r by simp
  obtain a where reg: "registry L ''features'' = LTable a" and a: "a < length (heap L)"
    using Cons.prems(2) by (auto simp: registry_files_iff)
  have k: "?k < 2 ^ 31"
    using Cons.prems(4) by simp
  have id: "size_to_int (length (features s)) = int ?k"
    using k Cons.prems(3) by (simp add: size_to_int_exact)
  obtain tbl where H: "call_host cf fn args (s, L) =
           (None,
            s\<lparr>features := features s @ [registered_feature cf (fn, args) (int ?k)]\<rparr>,
            L\<lparr>heap := (heap L @ [tbl])
                          [a := rawset (heap L ! a) (LNumber (of_nat ?k))
                                  (LTable (length (heap L)))]\<rparr>)"
    and tbl: "rawget tbl (LNumber 1) = processing_function (fn, args)"
    using call_host_state [OF acc reg a, of cf s] by (auto simp: id)
  let ?s1 = "s\<lparr>features := features s @ [registered_feature cf (fn, args) (int ?k)]\<rparr>"
  let ?L1 = "L\<lparr>heap := (heap L @ [tbl])
                          [a := rawset (heap L ! a) (LNumber (of_nat ?k))
                                  (LTable (length (heap L)))]\<rparr>"
  have files1: "registry_files ?L1 (done @ [r])"
    unfolding r using Cons.prems(2) reg tbl by (rule registry_files_step)
  have IH: "\<exists>L'. run_chunk cf (registration_calls regs) (?s1, ?L1) =
           (None,
            ?s1\<lparr>features := features ?s1 @
               map (\<lambda>(j, r). registered_feature cf r (int j))
                 (zip [length (done @ [r])..<length (done @ [r]) + length regs] regs)\<rparr>,
            L')
         \<and> registry_files L' ((done @ [r]) @ regs)
         \<and> stack L' = stack ?L1 \<and> globals L' = globals ?L1"
  proof (rule Cons.IH)
    show "\<forall>r \<in> set regs. accepted r"
      using Cons.prems(1) by simp
    show "registry_files ?L1 (done @ [r])"
      by (rule files1)
    show "length (features ?s1) = length (done @ [r])"
      using Cons.prems(3) by simp
    show "length (done @ [r]) + length regs \<le> 2 ^ 31"
      using Cons.prems(4) by simp
  qed
  then obtain L' where run: "run_chunk cf (registration_calls regs) (?s1, ?L1) =
           (None,
            ?s1\<lparr>features := features ?s1 @
               map (\<lambda>(j, r). registered_feature cf r (int j))
                 (zip [Suc ?k..<Suc ?k + length regs] regs)\<rparr>,
            L')"
    and files: "registry_files L' (done @ r # regs)"
    and st: "stack L' = stack L" and gl: "globals L' = globals L"
    by auto
  have "run_chunk cf (registration_calls (r # regs)) (s, L) =
          run_chunk cf (registration_calls regs) (?s1, ?L1)"
    by (simp add: registration_calls_def r H)
  moreover have "?s1\<lparr>features := features ?s1 @
               map (\<lambda>(j, r). registered_feature cf r (int j))
                 (zip [Suc ?k..<Suc ?k + length regs] regs)\<rparr> =
          s\<lparr>features := features s @
               map (\<lambda>(j, r). registered_feature cf r (int j))
                 (zip [?k..<?k + length (r # regs)] (r # regs))\<rparr>"
    by (simp only: length_Cons upt_zip_Cons) (simp add: r)
  ultimately show ?case
    using run files st gl by (intro exI [of _ L']) simp
qed

lemma Create_registry_state:
  "stack Create_registry = []" "heap Create_registry = [[]]"
  "registry Create_registry ''features'' = LTable 0"
  by (simp_all add: Create_registry_def Let_def lua_open_def lua_setfield_REGISTRY_def
        lua_pushlightuserdata_def lua_newtable_def push_def index2adr_def lua_pop_def)

lemma registry_files_Create_registry: "registry_files Create_registry []"
  by (simp add: registry_files_def Create_registry_state)

text \<open>
  A script object that lost its Lua state has no features: this holds of the object that
  the constructor hands to \<open>Create\<close>, and of every object that \<open>Create\<close> returns. So
  \<open>Create\<close> always starts its registrations from an empty list.
\<close>

lemma Create_no_state_no_features:
  "script_L (Create cf src s) = None \<Longrightarrow> features (Create cf src s) = []"
proof (cases "snd (Create_try cf src (Destroy s))")
  case None
  then show "script_L (Create cf src s) = None \<Longrightarrow> features (Create cf src s) = []"
    using Create_success [of cf src s] by simp
next
  case (Some e)
  then show "script_L (Create cf src s) = None \<Longrightarrow> features (Create cf src s) = []"
    by (simp add: Create_failure)
qed

lemma Destroy_features:
  assumes "this = new_script fname pretty \<or> this = Create cf0 src0 s0"
  shows "features (Destroy this) = []"
proof -
  have "script_L this = None \<longrightarrow> features this = []"
    using assms Create_no_state_no_features [of cf0 src0 s0] by (auto simp: new_script_def)
  then show ?thesis
    by (cases "script_L this") (simp_all add: Destroy_def)
qed

lemma Create_try_no_version:
  assumes run: "run_chunk cf c (s, Create_registry) = (None, s1, L3)"
    and nov: "globals L3 ''version'' = LNil"
  shows "snd (Create_try cf (Chunk c) s) = None"
    and "features (fst (Create_try cf (Chunk c) s)) = features s1"
    and "script_L (fst (Create_try cf (Chunk c) s)) = Some L3"
proof -
  have v: "\<not> (lua_isnumber cf (lua_getglobal L3 ''version'') (-1)
              \<and> lua_tointeger cf (lua_getglobal L3 ''version'') (-1) = 3)"
    by (simp add: version_check nov luaV_tonumber_def)
  have p: "lua_pop (lua_getglobal L3 ''version'') 1 = L3"
    by (simp add: lua_getglobal_def push_def lua_pop_def)
  let ?L4 = "lua_getglobal L3 ''version''"
  let ?s2 = "s1\<lparr>name := get_global_string cf ?L4 ''script_name'',
                 description := get_global_string cf ?L4 ''script_description'',
                 author := get_global_string cf ?L4 ''script_author'',
                 version := get_global_string cf ?L4 ''script_version''\<rparr>"
  let ?s3 = "if name ?s2 = [] then ?s2\<lparr>name := GetPrettyFilename ?s2\<rparr> else ?s2"
  have C: "Create_try cf (Chunk c) s = (?s3\<lparr>script_L := Some L3\<rparr>, None)"
    using v by (simp add: Create_try_def Let_def run p del: One_nat_def)
  show "snd (Create_try cf (Chunk c) s) = None"
    by (simp only: C snd_conv)
  have "features ?s3 = features s1"
    by simp
  then show "features (fst (Create_try cf (Chunk c) s)) = features s1"
    by (simp only: C fst_conv) simp
  show "script_L (fst (Create_try cf (Chunk c) s)) = Some L3"
    by (simp only: C fst_conv) simp
qed

lemma Create_of_success:
  assumes "snd (Create_try cf src (Destroy s)) = None"
  shows "Create cf src s = fst (Create_try cf src (Destroy s))"
  using assms by (cases "Create_try cf src (Destroy s)") (simp add: Create_def)

lemma myid_registered_feature: "myid (registered_feature cf r i) = i"
  by (cases r) (simp add: registered_feature_def split: host_function.splits)

lemma registry_files_lookup:
  assumes "registry_files L regs" and "j < length regs"
  shows "feature_function (L\<lparr>stack := st\<rparr>) (int j) 1 = processing_function (regs ! j)"
proof -
  obtain a b where "registry L ''features'' = LTable a" "a < length (heap L)"
    "rawget (heap L ! a) (LNumber (of_nat j)) = LTable b" "b < length (heap L)"
    "rawget (heap L ! b) (LNumber 1) = processing_function (regs ! j)"
    using assms by (auto simp: registry_files_iff)
  then show ?thesis
    by (simp add: feature_function_def deref_def)
qed

text \<open>
  Claim C7. The script object is new, or it is what an earlier load left. It loads a
  script whose top level makes the registrations \<open>regs\<close>, one after the other, each with a
  function as processing function, and there are at most \<open>2^31\<close> of them, so that every
  index fits the \<^verbatim>\<open>int\<close> in which \<^verbatim>\<open>LuaScript::RegisterFeature\<close> returns it. Then the
  load succeeds, the script object holds as many features as there were registrations,
  the feature at position \<open>i\<close> is the one that the \<open>i\<close>-th registration built, its index
  \<^verbatim>\<open>myid\<close> is \<open>i\<close>, and the lookup that the code makes with that index in the registry
  table \<^verbatim>\<open>features\<close> (\<open>GetFeatureFunction\<close>) pushes the processing function of the
  \<open>i\<close>-th registration, whatever the stack holds.
\<close>

theorem registered_features_are_indexed_in_order:
  assumes "this = new_script fname pretty \<or> this = Create cf0 src0 s0"
    and "\<forall>r \<in> set regs. accepted r"
    and "length regs \<le> 2 ^ 31"
    and "i < length regs"
  shows "\<exists>L'. script_L (Create cf (Chunk (registration_calls regs)) this) = Some L'
           \<and> length (features (Create cf (Chunk (registration_calls regs)) this)) = length regs
           \<and> features (Create cf (Chunk (registration_calls regs)) this) ! i =
               registered_feature cf (regs ! i) (int i)
           \<and> myid (features (Create cf (Chunk (registration_calls regs)) this) ! i) = int i
           \<and> (\<forall>st. stack (GetFeatureFunction (L'\<lparr>stack := st\<rparr>)
                             (myid (features (Create cf (Chunk (registration_calls regs)) this) ! i))
                             1) =
                      st @ [processing_function (regs ! i)])"
proof -
  let ?c = "registration_calls regs"
  let ?D = "Destroy this"
  let ?fs = "map (\<lambda>(j, r). registered_feature cf r (int j)) (zip [0..<length regs] regs)"
  have D: "features ?D = []"
    using assms(1) by (rule Destroy_features)
  obtain L' where run: "run_chunk cf ?c (?D, Create_registry) =
      (None, ?D\<lparr>features := features ?D @
                  map (\<lambda>(j, r). registered_feature cf r (int j))
                    (zip [length ([] :: (host_function \<times> lua_value list) list)..<
                          length ([] :: (host_function \<times> lua_value list) list) + length regs]
                       regs)\<rparr>, L')"
    and files: "registry_files L' ([] @ regs)"
    and gl: "globals L' = globals Create_registry"
    using run_registration_calls [OF assms(2) registry_files_Create_registry, of ?D cf]
      D assms(3) by auto
  have run': "run_chunk cf ?c (?D, Create_registry) = (None, ?D\<lparr>features := ?fs\<rparr>, L')"
    using run D by simp
  have nov: "globals L' ''version'' = LNil"
    by (simp add: gl globals_Create_registry)
  note T = Create_try_no_version [OF run' nov]
  have C: "Create cf (Chunk ?c) this = fst (Create_try cf (Chunk ?c) ?D)"
    using T(1) by (rule Create_of_success)
  have fs: "features (Create cf (Chunk ?c) this) = ?fs"
    using T(2) by (simp add: C)
  have L: "script_L (Create cf (Chunk ?c) this) = Some L'"
    using T(3) by (simp add: C)
  have len: "length (features (Create cf (Chunk ?c) this)) = length regs"
    by (simp add: fs)
  have nth: "features (Create cf (Chunk ?c) this) ! i = registered_feature cf (regs ! i) (int i)"
    using assms(4) by (simp add: fs)
  have my: "myid (features (Create cf (Chunk ?c) this) ! i) = int i"
    by (simp only: nth myid_registered_feature)
  have "stack (GetFeatureFunction (L'\<lparr>stack := st\<rparr>) (int i) 1) =
          st @ [processing_function (regs ! i)]" for st
    using registry_files_lookup [of L' regs i st] files assms(4)
    by (simp add: GetFeatureFunction_stack)
  then show ?thesis
    using L len nth my by (intro exI [of _ L']) (simp only: simp_thms)
qed

theorem registered_features_are_indexed_in_order_witness:
  "accepted (example_registrations ! 0) \<and> accepted (example_registrations ! 1)
   \<and> length example_registrations = 2
   \<and> (\<exists>L'. script_L (Create decimal_conf (Chunk (registration_calls example_registrations))
                         (new_script ''/a/trim.lua'' ''trim.lua'')) = Some L'
         \<and> length (features (Create decimal_conf (Chunk (registration_calls example_registrations))
                              (new_script ''/a/trim.lua'' ''trim.lua''))) = 2
         \<and> features (Create decimal_conf (Chunk (registration_calls example_registrations))
                      (new_script ''/a/trim.lua'' ''trim.lua'')) ! 1 =
             FeatureFilter example_filter
         \<and> myid (features (Create decimal_conf (Chunk (registration_calls example_registrations))
                            (new_script ''/a/trim.lua'' ''trim.lua'')) ! 1) = 1
         \<and> (\<forall>st. stack (GetFeatureFunction (L'\<lparr>stack := st\<rparr>)
                           (myid (features (Create decimal_conf
                                              (Chunk (registration_calls example_registrations))
                                              (new_script ''/a/trim.lua'' ''trim.lua'')) ! 1))
                           1) =
                    st @ [LFunction 2]))"
proof -
  have a0: "accepted (example_registrations ! 0)" and a1: "accepted (example_registrations ! 1)"
    by (simp_all add: example_registrations_def accepted_def call_frame_def lua_isfunction_def
          index2adr_def processing_argument_def ttisfunction_def)
  have len: "length example_registrations = 2"
    by (simp add: example_registrations_def)
  have acc: "\<forall>r \<in> set example_registrations. accepted r"
    using a0 a1 by (simp add: example_registrations_def)
  have bound: "length example_registrations \<le> 2 ^ 31"
    by (simp add: len)
  have i: "1 < length example_registrations"
    by (simp add: len)
  have pf: "processing_function (example_registrations ! 1) = LFunction 2"
    by (simp add: example_registrations_def processing_function_def call_frame_def value_at_def
          index2adr_def processing_argument_def)
  have rf: "registered_feature decimal_conf (example_registrations ! 1) 1 =
              FeatureFilter example_filter"
    by (simp add: example_registrations_def registered_feature_def call_frame_def
          lua_tostring_def lua_tointeger_def lua_isfunction_def index2adr_def luaV_tostring_def
          luaV_tonumber_def wxString_def example_filter_def lua_number2integer_def)
  have o: "new_script ''/a/trim.lua'' ''trim.lua'' = new_script ''/a/trim.lua'' ''trim.lua''
           \<or> new_script ''/a/trim.lua'' ''trim.lua'' = Create decimal_conf example_script
                (new_script ''/a/trim.lua'' ''trim.lua'')"
    by simp
  show ?thesis
    using registered_features_are_indexed_in_order [OF o acc bound i, of decimal_conf]
    by (simp only: a0 a1 len pf rf simp_thms of_nat_1)
qed

end
